theory Spec2Isabelle
  imports Complex_Main
begin

section \<open>Data model of the payment lifecycle (bot.py, oxapay.py)\<close>

text \<open>
  The bot keeps its state in an SQLite file (tables \<open>payments\<close> and \<open>purchases\<close>), in the
  JSON file \<open>video_links.json\<close>, and in what it has sent through Telegram and to the
  OxaPay gateway. Each of these is a field of the record \<open>world\<close>; every source function
  that touches one of them takes the world and returns the new one.

  Columns and dictionary keys keep their source names behind a prefix (\<open>pay_\<close>, \<open>pur_\<close>,
  \<open>lk_\<close>), since a record field is a global constant. The autoincremented \<open>id\<close> columns
  are left out: no function of the payment lifecycle reads them. Timestamps are the
  strings \<open>datetime.now().isoformat()\<close> returns and are supplied by the environment of a
  call. Track ids, package keys and links are strings that can be encoded in UTF-8 (a
  track id is never \<open>NULL\<close>), and the SQLite file can always be opened.
\<close>

type_synonym timestamp = string

text \<open>
  An amount is a JSON number as Python holds it: an \<open>int\<close> of any size (the default
  prices are 15, 35, 49 and 75) or a finite \<open>float\<close>. A float is a double, which is a
  rational number; amounts are stored, copied and compared, never computed with.
\<close>

datatype number = PyInt int | PyFloat rat

type_synonym money = number

definition number_value :: "number \<Rightarrow> rat" where
  "number_value x = (case x of PyInt n \<Rightarrow> of_int n | PyFloat r \<Rightarrow> r)"

text \<open>
  What SQLite does with a bound parameter. The \<open>sqlite3\<close> module binds a Python \<open>int\<close> as
  a signed 64-bit integer and raises \<open>OverflowError\<close> when it does not fit. The columns
  \<open>amount\<close> are declared \<open>REAL\<close>: an integer stored there is converted to a double (the
  nearest one, ties to the even mantissa) and is read back as a \<open>float\<close>; a \<open>float\<close> is
  stored as it is. Whole numbers up to \<open>2^53\<close> in absolute value are doubles. A 64-bit
  integer beyond that has 54 to 64 bits, of which the double keeps the leading 53:
  \<open>excess_bits\<close> counts the bits that are dropped.
\<close>

definition int64 :: "int \<Rightarrow> bool" where
  "int64 n = (- (2 ^ 63) \<le> n \<and> n < 2 ^ 63)"

definition excess_bits :: "int \<Rightarrow> nat" where
  "excess_bits m = length (filter (\<lambda>j. 2 ^ (53 + j) \<le> m) [0, 1, 2, 3, 4, 5, 6, 7, 8, 9, 10])"

definition round_double :: "int \<Rightarrow> int" where
  "round_double n =
     (let m = \<bar>n\<bar>;
          k = excess_bits m;
          q = m div 2 ^ k;
          r = m mod 2 ^ k;
          q' = (if 2 * r > 2 ^ k \<or> (2 * r = 2 ^ k \<and> odd q) then q + 1 else q)
      in sgn n * q' * 2 ^ k)"

definition to_double :: "int \<Rightarrow> int" where
  "to_double n = (if \<bar>n\<bar> \<le> 2 ^ 53 then n else round_double n)"

record payment =
  pay_track_id :: string
  pay_user_id :: int
  pay_package :: string
  pay_amount :: rat
  pay_currency :: string
  pay_status :: string
  pay_created_at :: timestamp
  pay_completed_at :: "timestamp option"

record purchase =
  pur_user_id :: int
  pur_package :: string
  pur_amount :: rat
  pur_purchased_at :: timestamp
  pur_invite_link :: string

text \<open>
  The content of \<open>video_links.json\<close>: a JSON object whose keys \<open>packages\<close>, \<open>prices\<close> and
  \<open>package_status\<close> may each be absent (\<open>None\<close>). A JSON object is an association list.
\<close>

record links =
  lk_packages :: "(string \<times> string) list option"
  lk_prices :: "(string \<times> money) list option"
  lk_package_status :: "(string \<times> bool) list option"

text \<open>The two messages the bot sends to a user's chat, and the three texts it puts on
  the menu message of a callback query.\<close>

datatype message =
    PaymentConfirmed string string
  | PaymentExpired string money

datatype ui =
    CreatingInvoice
  | InvoiceCreated string string money
  | InvoiceFailed

datatype level = INFO | WARNING | ERROR

datatype exn =
    KeyError string
  | IntegrityError
  | OverflowError
  | TelegramError
  | GatewayError
  | JSONDecodeError
  | HTTPException nat string

text \<open>A call either returns a value or raises; the world it leaves behind is kept in
  both cases, since a write made before a raise stays written.\<close>

datatype 'a result = Returned 'a | Raised exn

text \<open>Binding a parameter for an \<open>INTEGER\<close> column and for a \<open>REAL\<close> column.\<close>

definition bind_integer :: "int \<Rightarrow> exn + int" where
  "bind_integer n = (if int64 n then Inr n else Inl OverflowError)"

definition bind_real :: "number \<Rightarrow> exn + rat" where
  "bind_real x =
     (case x of
        PyInt n \<Rightarrow> (if int64 n then Inr (of_int (to_double n)) else Inl OverflowError)
      | PyFloat r \<Rightarrow> Inr r)"

record world =
  payments :: "payment list"
  purchases :: "purchase list"
  links_file :: "links option"
  outbox :: "(int \<times> message) list"
  screen :: "(int \<times> ui) list"
  gateway_calls :: "(money \<times> string \<times> int) list"
  tasks :: "(int \<times> string \<times> string \<times> money) list"
  logged :: "(level \<times> string) list"

text \<open>
  What a call takes from outside the process: the clock reading, whether Telegram accepts
  the message the call sends (each handler sends at most one), what the OxaPay gateway
  answers to \<open>create_payment\<close> (\<open>None\<close> when it raises; otherwise the track id and the
  payment URL), and \<open>config.CURRENCY\<close> (the module \<open>config\<close> is not part of the
  sources).
\<close>

record env =
  env_now :: timestamp
  env_send_ok :: bool
  env_gateway :: "(string \<times> string) option"
  env_currency :: string

definition log_msg :: "level \<Rightarrow> string \<Rightarrow> world \<Rightarrow> world" where
  "log_msg lv msg w = w\<lparr>logged := logged w @ [(lv, msg)]\<rparr>"

section \<open>Database helpers\<close>

text \<open>
  \<open>INSERT INTO payments\<close>. The parameters are bound first: \<open>user_id\<close> and an \<open>int\<close>
  amount must fit 64 bits, or \<open>OverflowError\<close> is raised. The column \<open>track_id\<close> is
  declared \<open>UNIQUE\<close>, so the insert raises \<open>sqlite3.IntegrityError\<close> when a row with that
  track id exists. The row holds the amount as the \<open>REAL\<close> column reads it back.
\<close>

definition insert_payment ::
  "timestamp \<Rightarrow> string \<Rightarrow> int \<Rightarrow> string \<Rightarrow> money \<Rightarrow> string \<Rightarrow> payment list \<Rightarrow> exn + payment list" where
  "insert_payment now track_id user_id package amount currency rows =
     (case bind_integer user_id of
        Inl ex \<Rightarrow> Inl ex
      | Inr uid \<Rightarrow>
          (case bind_real amount of
             Inl ex \<Rightarrow> Inl ex
           | Inr stored \<Rightarrow>
               if track_id \<in> set (map pay_track_id rows) then Inl IntegrityError
               else Inr (rows @
                 [\<lparr>pay_track_id = track_id, pay_user_id = uid, pay_package = package,
                   pay_amount = stored, pay_currency = currency, pay_status = ''pending'',
                   pay_created_at = now, pay_completed_at = None\<rparr>])))"

text \<open>\<open>add_payment\<close>: the \<open>except Exception\<close> clause logs the error, whichever it is, and
  the function returns \<open>None\<close> either way.\<close>

definition add_payment ::
  "timestamp \<Rightarrow> string \<Rightarrow> int \<Rightarrow> string \<Rightarrow> money \<Rightarrow> string \<Rightarrow> world \<Rightarrow> unit result \<times> world" where
  "add_payment now track_id user_id package amount currency w =
     (case insert_payment now track_id user_id package amount currency (payments w) of
        Inr rows \<Rightarrow> (Returned (), w\<lparr>payments := rows\<rparr>)
      | Inl ex \<Rightarrow> (Returned (), log_msg ERROR ''Error adding payment'' w))"

text \<open>\<open>UPDATE payments SET status = ?, completed_at = ? WHERE track_id = ?\<close>: every row
  with that track id is rewritten, whatever its status; no row is no error.\<close>

definition update_payment_status :: "timestamp \<Rightarrow> string \<Rightarrow> string \<Rightarrow> world \<Rightarrow> world" where
  "update_payment_status now track_id status w =
     w\<lparr>payments :=
         map (\<lambda>r. if pay_track_id r = track_id
                  then r\<lparr>pay_status := status, pay_completed_at := Some now\<rparr>
                  else r) (payments w)\<rparr>"

text \<open>\<open>SELECT * FROM payments WHERE track_id = ?\<close> with \<open>fetchone\<close>.\<close>

definition get_payment :: "string \<Rightarrow> world \<Rightarrow> payment option" where
  "get_payment track_id w = find (\<lambda>r. pay_track_id r = track_id) (payments w)"

text \<open>
  \<open>INSERT INTO purchases\<close>, with the same binding of \<open>user_id\<close> and \<open>amount\<close>; the table
  has no constraint that can fail. \<open>add_purchase\<close> logs an exception of the insert and
  returns \<open>None\<close> either way.
\<close>

definition insert_purchase ::
  "timestamp \<Rightarrow> int \<Rightarrow> string \<Rightarrow> money \<Rightarrow> string \<Rightarrow> purchase list \<Rightarrow> exn + purchase list" where
  "insert_purchase now user_id package amount invite_link rows =
     (case bind_integer user_id of
        Inl ex \<Rightarrow> Inl ex
      | Inr uid \<Rightarrow>
          (case bind_real amount of
             Inl ex \<Rightarrow> Inl ex
           | Inr stored \<Rightarrow>
               Inr (rows @
                 [\<lparr>pur_user_id = uid, pur_package = package, pur_amount = stored,
                   pur_purchased_at = now, pur_invite_link = invite_link\<rparr>])))"

definition add_purchase ::
  "timestamp \<Rightarrow> int \<Rightarrow> string \<Rightarrow> money \<Rightarrow> string \<Rightarrow> world \<Rightarrow> world" where
  "add_purchase now user_id package amount invite_link w =
     (case insert_purchase now user_id package amount invite_link (purchases w) of
        Inr rows \<Rightarrow> w\<lparr>purchases := rows\<rparr>
      | Inl ex \<Rightarrow> log_msg ERROR ''Error adding purchase'' w)"

section \<open>Catalog\<close>

definition empty_links :: links where
  "empty_links = \<lparr>lk_packages = None, lk_prices = None, lk_package_status = None\<rparr>"

text \<open>\<open>load_json(LINKS_FILE)\<close>: a missing file reads as the empty object.\<close>

definition load_json :: "world \<Rightarrow> links" where
  "load_json w = (case links_file w of None \<Rightarrow> empty_links | Some l \<Rightarrow> l)"

definition default_prices :: "(string \<times> money) list" where
  "default_prices =
     [(''100_videos'', PyInt 15), (''1000_videos'', PyInt 35), (''5000_videos'', PyInt 49),
      (''10000_videos_bot'', PyInt 75)]"

definition get_prices :: "world \<Rightarrow> (string \<times> money) list" where
  "get_prices w = (case lk_prices (load_json w) of None \<Rightarrow> default_prices | Some p \<Rightarrow> p)"

definition PACKAGE_NAMES :: "(string \<times> string) list" where
  "PACKAGE_NAMES =
     [(''100_videos'', ''100 Videos''), (''1000_videos'', ''1000 Videos''),
      (''5000_videos'', ''5000 Videos''), (''10000_videos_bot'', ''10000 Videos + Bot'')]"

text \<open>\<open>package_status.get(pkg_key, True)\<close>, the test \<open>show_packages\<close> makes before it
  offers a package's button.\<close>

definition package_enabled :: "string \<Rightarrow> world \<Rightarrow> bool" where
  "package_enabled pkg_key w =
     (case lk_package_status (load_json w) of
        None \<Rightarrow> True
      | Some st \<Rightarrow> (case map_of st pkg_key of None \<Rightarrow> True | Some b \<Rightarrow> b))"

text \<open>
  The loop of \<open>show_packages\<close> over \<open>PACKAGE_NAMES.items()\<close>: an enabled package gets a
  button that carries its key and its price (\<open>prices[pkg_key]\<close> raises \<open>KeyError\<close> when the
  price is missing); a disabled package gets none. \<open>show_packages\<close> is modelled by the
  buttons it puts on the menu.
\<close>

fun package_buttons ::
  "(string \<times> money) list \<Rightarrow> (string \<Rightarrow> bool) \<Rightarrow> string list \<Rightarrow> (string \<times> money) list result" where
  "package_buttons prices enabled [] = Returned []"
| "package_buttons prices enabled (pkg_key # rest) =
     (if enabled pkg_key
      then (case map_of prices pkg_key of
              None \<Rightarrow> Raised (KeyError pkg_key)
            | Some price \<Rightarrow>
                (case package_buttons prices enabled rest of
                   Raised ex \<Rightarrow> Raised ex
                 | Returned buttons \<Rightarrow> Returned ((pkg_key, price) # buttons)))
      else package_buttons prices enabled rest)"

definition show_packages :: "world \<Rightarrow> (string \<times> money) list result" where
  "show_packages w =
     package_buttons (get_prices w) (\<lambda>pkg_key. package_enabled pkg_key w) (map fst PACKAGE_NAMES)"

section \<open>Telegram\<close>

text \<open>\<open>bot_app.bot.send_message\<close>: delivers the message to the chat, or raises.\<close>

definition send_message :: "bool \<Rightarrow> int \<Rightarrow> message \<Rightarrow> world \<Rightarrow> unit result \<times> world" where
  "send_message ok chat_id text w =
     (if ok then (Returned (), w\<lparr>outbox := outbox w @ [(chat_id, text)]\<rparr>)
      else (Raised TelegramError, w))"

definition edit_message_text :: "int \<Rightarrow> ui \<Rightarrow> world \<Rightarrow> world" where
  "edit_message_text user_id text w = w\<lparr>screen := screen w @ [(user_id, text)]\<rparr>"

section \<open>Fulfillment: \<open>deliver_access\<close>\<close>

text \<open>
  The \<open>try\<close> block of \<open>deliver_access\<close>: the message text is built first (it reads
  \<open>PACKAGE_NAMES[package]\<close>), the message is sent, then the price is read from the prices
  file and the purchase is written. Each step that raises ends the block.
\<close>

definition deliver_try :: "env \<Rightarrow> int \<Rightarrow> string \<Rightarrow> string \<Rightarrow> world \<Rightarrow> unit result \<times> world" where
  "deliver_try e user_id package invite_link w =
     (case map_of PACKAGE_NAMES package of
        None \<Rightarrow> (Raised (KeyError package), w)
      | Some name \<Rightarrow>
          (case send_message (env_send_ok e) user_id (PaymentConfirmed name invite_link) w of
             (Raised ex, w1) \<Rightarrow> (Raised ex, w1)
           | (Returned u, w1) \<Rightarrow>
               (case map_of (get_prices w1) package of
                  None \<Rightarrow> (Raised (KeyError package), w1)
                | Some amount \<Rightarrow>
                    (Returned (), add_purchase (env_now e) user_id package amount invite_link w1))))"

text \<open>
  \<open>links["packages"]\<close> is read outside the \<open>try\<close>: a links file without that key raises
  \<open>KeyError\<close> to the caller. An absent or empty invite link is logged and the function
  returns. An exception of the \<open>try\<close> block is logged and swallowed.
\<close>

definition deliver_access :: "env \<Rightarrow> int \<Rightarrow> string \<Rightarrow> world \<Rightarrow> unit result \<times> world" where
  "deliver_access e user_id package w =
     (case lk_packages (load_json w) of
        None \<Rightarrow> (Raised (KeyError ''packages''), w)
      | Some pk \<Rightarrow>
          (let invite_link = (case map_of pk package of None \<Rightarrow> [] | Some l \<Rightarrow> l) in
           if invite_link = [] then (Returned (), log_msg ERROR ''No invite link for package'' w)
           else
             (case deliver_try e user_id package invite_link w of
                (Returned u, w1) \<Rightarrow> (Returned (), w1)
              | (Raised ex, w1) \<Rightarrow> (Returned (), log_msg ERROR ''Failed to deliver access'' w1))))"

section \<open>Expiry watcher: \<open>check_payment_expiry\<close>\<close>

text \<open>
  The watcher sleeps, then reads the payment and tests \<open>payment and payment["status"] ==
  "pending"\<close> (\<open>expiry_pending\<close>). In the \<open>try\<close> block it builds the text, awaits
  \<open>send_message\<close> and only then calls \<open>update_payment_status\<close> (\<open>expiry_try\<close>); an
  exception is logged and swallowed (\<open>expiry_notify\<close>). The function has no loop: it runs
  this once and ends.

  The coroutine can be suspended only at an \<open>await\<close>. Between the status read and the
  status write there is exactly one, the \<open>await\<close> of \<open>send_message\<close>; so the watcher is
  the status read followed, possibly after other handlers have run, by the send and the write.
\<close>

definition expiry_pending :: "string \<Rightarrow> world \<Rightarrow> bool" where
  "expiry_pending track_id w =
     (case get_payment track_id w of None \<Rightarrow> False | Some p \<Rightarrow> pay_status p = ''pending'')"

definition expiry_try ::
  "env \<Rightarrow> int \<Rightarrow> string \<Rightarrow> string \<Rightarrow> money \<Rightarrow> world \<Rightarrow> unit result \<times> world" where
  "expiry_try e user_id track_id package amount w =
     (case map_of PACKAGE_NAMES package of
        None \<Rightarrow> (Raised (KeyError package), w)
      | Some name \<Rightarrow>
          (case send_message (env_send_ok e) user_id (PaymentExpired name amount) w of
             (Raised ex, w1) \<Rightarrow> (Raised ex, w1)
           | (Returned u, w1) \<Rightarrow>
               (Returned (), update_payment_status (env_now e) track_id ''expired'' w1)))"

definition expiry_notify ::
  "env \<Rightarrow> int \<Rightarrow> string \<Rightarrow> string \<Rightarrow> money \<Rightarrow> world \<Rightarrow> world" where
  "expiry_notify e user_id track_id package amount w =
     (case expiry_try e user_id track_id package amount w of
        (Returned u, w1) \<Rightarrow> w1
      | (Raised ex, w1) \<Rightarrow> log_msg ERROR ''Failed to send expiry notification'' w1)"

definition check_payment_expiry ::
  "env \<Rightarrow> int \<Rightarrow> string \<Rightarrow> string \<Rightarrow> money \<Rightarrow> world \<Rightarrow> world" where
  "check_payment_expiry e user_id track_id package amount w =
     (if expiry_pending track_id w then expiry_notify e user_id track_id package amount w
      else w)"

section \<open>Webhook: \<open>oxapay_webhook\<close>\<close>

text \<open>
  A request has headers and a body. The body either does not parse (\<open>request.json()\<close>
  raises) or is a JSON object, of which the handler reads \<open>trackId\<close> and \<open>status\<close> with
  \<open>payload.get\<close> (\<open>None\<close> when the key is absent). The handler never reads the headers.
\<close>

datatype body = NotJson | JsonObject "string option" "string option"

record request =
  headers :: "(string \<times> string) list"
  body :: body

text \<open>The handler returns a dictionary (HTTP 200) or raises \<open>HTTPException\<close>; the detail
  of a 500 is \<open>str(e)\<close> of the exception caught.\<close>

datatype detail = Text string | StrOf exn

datatype response = Json200 "(string \<times> string) list" | HttpError nat detail

definition missing_trackId :: "world \<Rightarrow> (string \<times> string) list result \<times> world" where
  "missing_trackId w =
     (Raised (HTTPException 400 ''Missing trackId''), log_msg ERROR ''Webhook missing trackId'' w)"

text \<open>The part of the handler after \<open>track_id\<close> has passed the test \<open>not track_id\<close>.\<close>

definition reconcile ::
  "env \<Rightarrow> string \<Rightarrow> string option \<Rightarrow> world \<Rightarrow> (string \<times> string) list result \<times> world" where
  "reconcile e track_id status w =
     (case get_payment track_id w of
        None \<Rightarrow> (Returned [(''status'', ''ignored'')], log_msg WARNING ''Unknown payment trackId'' w)
      | Some payment \<Rightarrow>
          if pay_status payment = ''completed''
          then (Returned [(''status'', ''already_processed'')],
                log_msg INFO ''Payment already processed'' w)
          else if status \<in> set [Some ''Paid'', Some ''Confirming'']
          then
            (case deliver_access e (pay_user_id payment) (pay_package payment)
                    (update_payment_status (env_now e) track_id ''completed''
                       (log_msg INFO ''Payment successful'' w)) of
               (Raised ex, w1) \<Rightarrow> (Raised ex, w1)
             | (Returned u, w1) \<Rightarrow>
                 (Returned [(''status'', ''success''), (''message'', ''Payment processed'')], w1))
          else if status = Some ''Expired''
          then (Returned [(''status'', ''expired'')],
                update_payment_status (env_now e) track_id ''expired''
                  (log_msg INFO ''Payment expired'' w))
          else if status = Some ''Failed''
          then (Returned [(''status'', ''failed'')],
                update_payment_status (env_now e) track_id ''failed''
                  (log_msg INFO ''Payment failed'' w))
          else (Returned [(''status'', ''pending'')], log_msg INFO ''Payment pending'' w))"

text \<open>The body of the handler's \<open>try\<close>.\<close>

definition webhook_try ::
  "env \<Rightarrow> request \<Rightarrow> world \<Rightarrow> (string \<times> string) list result \<times> world" where
  "webhook_try e req w =
     (case body req of
        NotJson \<Rightarrow> (Raised JSONDecodeError, w)
      | JsonObject track_id status \<Rightarrow>
          (let w0 = log_msg INFO ''OxaPay webhook received'' w in
           case track_id of
             None \<Rightarrow> missing_trackId w0
           | Some t \<Rightarrow> if t = [] then missing_trackId w0 else reconcile e t status w0))"

text \<open>\<open>except HTTPException: raise\<close> passes the 400 on; any other exception is logged and
  becomes a 500.\<close>

fun webhook_except :: "(string \<times> string) list result \<times> world \<Rightarrow> response \<times> world" where
  "webhook_except (Returned d, w) = (Json200 d, w)"
| "webhook_except (Raised (HTTPException code msg), w) = (HttpError code (Text msg), w)"
| "webhook_except (Raised ex, w) = (HttpError 500 (StrOf ex), log_msg ERROR ''Webhook error'' w)"

definition oxapay_webhook :: "env \<Rightarrow> request \<Rightarrow> world \<Rightarrow> response \<times> world" where
  "oxapay_webhook e req w = webhook_except (webhook_try e req w)"

text \<open>\<open>verify_webhook_signature\<close> of oxapay.py. No function of bot.py calls it.\<close>

definition verify_webhook_signature :: "string \<Rightarrow> string \<Rightarrow> bool" where
  "verify_webhook_signature webhook_secret received_secret =
     (if webhook_secret = [] \<or> received_secret = [] then False
      else webhook_secret = received_secret)"

section \<open>Invoice creation: \<open>create_oxapay_invoice\<close> and \<open>initiate_payment\<close>\<close>

record invoice =
  inv_track_id :: string
  inv_payment_url :: string
  inv_amount :: money

text \<open>
  \<open>create_payment\<close> of oxapay.py builds the request before its \<open>try\<close>; the request
  holds \<open>float(amount_usd)\<close>, which raises \<open>OverflowError\<close> for an \<open>int\<close> that rounds
  beyond the largest double. It then posts the request and either returns the
  processor's track id and payment URL or raises. A posted request is recorded in
  \<open>gateway_calls\<close> with the amount it was made for; the processor's answer comes from the
  environment.
\<close>

definition float_overflows :: "number \<Rightarrow> bool" where
  "float_overflows x =
     (case x of PyInt n \<Rightarrow> \<bar>n\<bar> \<ge> 2 ^ 1024 - 2 ^ 970 | PyFloat r \<Rightarrow> False)"

definition create_payment ::
  "env \<Rightarrow> money \<Rightarrow> string \<Rightarrow> int \<Rightarrow> world \<Rightarrow> invoice result \<times> world" where
  "create_payment e amount_usd package user_id w =
     (if float_overflows amount_usd then (Raised OverflowError, w)
      else
        (let w1 = w\<lparr>gateway_calls := gateway_calls w @ [(amount_usd, package, user_id)]\<rparr> in
         case env_gateway e of
           None \<Rightarrow> (Raised GatewayError, log_msg ERROR ''OxaPay API error'' w1)
         | Some (track, url) \<Rightarrow>
             (Returned \<lparr>inv_track_id = track, inv_payment_url = url, inv_amount = amount_usd\<rparr>, w1)))"

text \<open>\<open>create_oxapay_invoice\<close> turns every exception into \<open>None\<close>.\<close>

definition create_oxapay_invoice ::
  "env \<Rightarrow> money \<Rightarrow> string \<Rightarrow> int \<Rightarrow> world \<Rightarrow> invoice option \<times> world" where
  "create_oxapay_invoice e amount package user_id w =
     (case create_payment e amount package user_id w of
        (Returned invoice, w1) \<Rightarrow> (Some invoice, w1)
      | (Raised ex, w1) \<Rightarrow> (None, log_msg ERROR ''OxaPay payment creation failed'' w1))"

definition create_task :: "int \<times> string \<times> string \<times> money \<Rightarrow> world \<Rightarrow> world" where
  "create_task watcher w = w\<lparr>tasks := tasks w @ [watcher]\<rparr>"

text \<open>
  \<open>initiate_payment(query, package)\<close>, with \<open>query.from_user.id\<close> as \<open>user_id\<close>. It reads
  the price (\<open>prices[package]\<close> raises \<open>KeyError\<close> for an unknown package), asks the gateway
  for an invoice, stores the payment, shows the invoice (the text reads
  \<open>PACKAGE_NAMES[package]\<close>) and starts the expiry watcher. It does not read
  \<open>package_status\<close>.
\<close>

definition initiate_payment :: "env \<Rightarrow> int \<Rightarrow> string \<Rightarrow> world \<Rightarrow> unit result \<times> world" where
  "initiate_payment e user_id package w =
     (case map_of (get_prices w) package of
        None \<Rightarrow> (Raised (KeyError package), w)
      | Some amount \<Rightarrow>
          (case create_oxapay_invoice e amount package user_id
                  (edit_message_text user_id CreatingInvoice w) of
             (None, w1) \<Rightarrow> (Returned (), edit_message_text user_id InvoiceFailed w1)
           | (Some invoice, w1) \<Rightarrow>
               (let w2 = snd (add_payment (env_now e) (inv_track_id invoice) user_id package amount
                                (env_currency e) w1) in
                case map_of PACKAGE_NAMES package of
                  None \<Rightarrow> (Raised (KeyError package), w2)
                | Some name \<Rightarrow>
                    (Returned (),
                     create_task (user_id, inv_track_id invoice, package, amount)
                       (edit_message_text user_id
                          (InvoiceCreated (inv_payment_url invoice) name amount) w2)))))"

section \<open>Handlers interleaved at their awaits\<close>

text \<open>
  The handlers are coroutines of one event loop: one runs until it awaits, and only then
  can another run. \<open>oxapay_webhook\<close> awaits \<open>request.json()\<close> before it reads anything,
  and then only inside \<open>deliver_access\<close>, at \<open>send_message\<close>. \<open>check_payment_expiry\<close>
  awaits its sleep and then \<open>send_message\<close>. Each handler is cut at its
  \<open>await send_message\<close> into the part that runs up to the send and the part that runs when
  the send has returned or raised. The lemmas \<open>deliver_access_segments\<close>,
  \<open>webhook_segments\<close> and \<open>check_payment_expiry_segments\<close> show that the two parts, run
  one after the other, are the handler.
\<close>

text \<open>
  \<open>deliver_access\<close> up to the send: the function ends there (with its result), or the
  send is awaited, with the invite link and the display name the text was built from.
\<close>

definition deliver_begin ::
  "int \<Rightarrow> string \<Rightarrow> world \<Rightarrow> unit result \<times> world \<times> (string \<times> string) option" where
  "deliver_begin user_id package w =
     (case lk_packages (load_json w) of
        None \<Rightarrow> (Raised (KeyError ''packages''), w, None)
      | Some pk \<Rightarrow>
          (let invite_link = (case map_of pk package of None \<Rightarrow> [] | Some l \<Rightarrow> l) in
           if invite_link = []
           then (Returned (), log_msg ERROR ''No invite link for package'' w, None)
           else
             (case map_of PACKAGE_NAMES package of
                None \<Rightarrow> (Returned (), log_msg ERROR ''Failed to deliver access'' w, None)
              | Some name \<Rightarrow> (Returned (), w, Some (invite_link, name)))))"

text \<open>\<open>deliver_access\<close> from the send on: the outcome of the send, then the price and the
  purchase record.\<close>

definition deliver_resume ::
  "env \<Rightarrow> int \<Rightarrow> string \<Rightarrow> string \<Rightarrow> string \<Rightarrow> world \<Rightarrow> world" where
  "deliver_resume e user_id package invite_link name w =
     (case send_message (env_send_ok e) user_id (PaymentConfirmed name invite_link) w of
        (Raised ex, w1) \<Rightarrow> log_msg ERROR ''Failed to deliver access'' w1
      | (Returned u, w1) \<Rightarrow>
          (case map_of (get_prices w1) package of
             None \<Rightarrow> log_msg ERROR ''Failed to deliver access'' w1
           | Some amount \<Rightarrow> add_purchase (env_now e) user_id package amount invite_link w1))"

text \<open>
  The request and the payment with which the webhook reaches \<open>deliver_access\<close>: a track
  id that passes \<open>not track_id\<close>, a stored payment that is not \<open>completed\<close>, and a reported
  status \<open>Paid\<close> or \<open>Confirming\<close>.
\<close>

definition paid_payment :: "request \<Rightarrow> world \<Rightarrow> (string \<times> payment) option" where
  "paid_payment req w =
     (case body req of
        NotJson \<Rightarrow> None
      | JsonObject track_id status \<Rightarrow>
          (case track_id of
             None \<Rightarrow> None
           | Some t \<Rightarrow>
               (case get_payment t w of
                  None \<Rightarrow> None
                | Some payment \<Rightarrow>
                    if t \<noteq> [] \<and> pay_status payment \<noteq> ''completed'' \<and>
                       status \<in> set [Some ''Paid'', Some ''Confirming'']
                    then Some (t, payment) else None)))"

text \<open>
  \<open>oxapay_webhook\<close> up to the send: the world it leaves and, when it is suspended in the
  send of \<open>deliver_access\<close>, the user, package, invite link and display name of that
  delivery. A handler that does not reach \<open>deliver_access\<close> runs to its end. After
  \<open>deliver_access\<close> the handler only returns its response.
\<close>

definition webhook_begin ::
  "env \<Rightarrow> request \<Rightarrow> world \<Rightarrow> world \<times> (int \<times> string \<times> string \<times> string) option" where
  "webhook_begin e req w =
     (case paid_payment req w of
        None \<Rightarrow> (snd (oxapay_webhook e req w), None)
      | Some (t, payment) \<Rightarrow>
          (case deliver_begin (pay_user_id payment) (pay_package payment)
                  (update_payment_status (env_now e) t ''completed''
                     (log_msg INFO ''Payment successful''
                        (log_msg INFO ''OxaPay webhook received'' w))) of
             (Raised ex, w1, d) \<Rightarrow> (log_msg ERROR ''Webhook error'' w1, None)
           | (Returned u, w1, None) \<Rightarrow> (w1, None)
           | (Returned u, w1, Some (invite_link, name)) \<Rightarrow>
               (w1, Some (pay_user_id payment, pay_package payment, invite_link, name))))"

text \<open>
  \<open>check_payment_expiry\<close> from the end of its sleep up to the send: it reads the status;
  when the payment is pending it builds the text (a package without display name ends
  the \<open>try\<close> with \<open>KeyError\<close>, which is logged) and awaits the send.
\<close>

definition expiry_begin :: "string \<Rightarrow> string \<Rightarrow> world \<Rightarrow> world \<times> string option" where
  "expiry_begin track_id package w =
     (if expiry_pending track_id w
      then (case map_of PACKAGE_NAMES package of
              None \<Rightarrow> (log_msg ERROR ''Failed to send expiry notification'' w, None)
            | Some name \<Rightarrow> (w, Some name))
      else (w, None))"

text \<open>\<open>check_payment_expiry\<close> from the send on: the outcome of the send, then the
  status write. The status is not read again.\<close>

definition expiry_resume ::
  "env \<Rightarrow> int \<Rightarrow> string \<Rightarrow> string \<Rightarrow> money \<Rightarrow> world \<Rightarrow> world" where
  "expiry_resume e user_id track_id name amount w =
     (case send_message (env_send_ok e) user_id (PaymentExpired name amount) w of
        (Raised ex, w1) \<Rightarrow> log_msg ERROR ''Failed to send expiry notification'' w1
      | (Returned u, w1) \<Rightarrow> update_payment_status (env_now e) track_id ''expired'' w1)"

text \<open>
  The state of the event loop: the world, the watchers suspended in their send (user,
  track id, display name, amount) and the webhook handlers suspended in the send of
  \<open>deliver_access\<close> (user, package, invite link, display name).
\<close>

record system =
  sys_world :: world
  expiry_sends :: "(int \<times> string \<times> string \<times> money) list"
  access_sends :: "(int \<times> string \<times> string \<times> string) list"

text \<open>
  What the event loop can do next: start the handler of a webhook request, resume a
  handler whose send of the access message has ended, wake a watcher from its sleep,
  resume a watcher whose send of the expiry notice has ended. A resumption of a handler
  that is not suspended does not happen. A watcher may wake at any time, whether or not
  \<open>initiate_payment\<close> has started it.
\<close>

datatype event =
    WebhookArrives env request
  | AccessSendEnds env int string string string
  | WatcherWakes int string string money
  | ExpirySendEnds env int string string money

fun step :: "event \<Rightarrow> system \<Rightarrow> system" where
  "step (WebhookArrives e req) s =
     (case webhook_begin e req (sys_world s) of
        (w1, None) \<Rightarrow> s\<lparr>sys_world := w1\<rparr>
      | (w1, Some d) \<Rightarrow> s\<lparr>sys_world := w1, access_sends := access_sends s @ [d]\<rparr>)"
| "step (AccessSendEnds e user_id package invite_link name) s =
     (if (user_id, package, invite_link, name) \<in> set (access_sends s)
      then s\<lparr>sys_world := deliver_resume e user_id package invite_link name (sys_world s),
              access_sends := remove1 (user_id, package, invite_link, name) (access_sends s)\<rparr>
      else s)"
| "step (WatcherWakes user_id track_id package amount) s =
     (case expiry_begin track_id package (sys_world s) of
        (w1, None) \<Rightarrow> s\<lparr>sys_world := w1\<rparr>
      | (w1, Some name) \<Rightarrow>
          s\<lparr>sys_world := w1,
            expiry_sends := expiry_sends s @ [(user_id, track_id, name, amount)]\<rparr>)"
| "step (ExpirySendEnds e user_id track_id name amount) s =
     (if (user_id, track_id, name, amount) \<in> set (expiry_sends s)
      then s\<lparr>sys_world := expiry_resume e user_id track_id name amount (sys_world s),
              expiry_sends := remove1 (user_id, track_id, name, amount) (expiry_sends s)\<rparr>
      else s)"

definition run :: "event list \<Rightarrow> system \<Rightarrow> system" where
  "run evs s = fold step evs s"

text \<open>The event loop with no handler suspended.\<close>

definition idle :: "world \<Rightarrow> system" where
  "idle w = \<lparr>sys_world = w, expiry_sends = [], access_sends = []\<rparr>"

text \<open>No watcher of \<open>track_id\<close> is suspended in its send.\<close>

definition no_expiry_send :: "string \<Rightarrow> system \<Rightarrow> bool" where
  "no_expiry_send track_id s = (track_id \<notin> set (map (\<lambda>(u, t, n, a). t) (expiry_sends s)))"

definition stored_status :: "string \<Rightarrow> world \<Rightarrow> string option" where
  "stored_status track_id w = map_option pay_status (get_payment track_id w)"

definition terminal :: "string \<Rightarrow> bool" where
  "terminal s = (s \<in> set [''completed'', ''expired'', ''failed''])"

text \<open>
  An event that cannot write the status of \<open>track_id\<close>: the start of a webhook handler
  for another track id or with a reported status that maps to no transition, the
  resumption of a delivery, the wake-up of a watcher, and the resumption of a watcher of
  another track id.
\<close>

fun quiet :: "string \<Rightarrow> event \<Rightarrow> bool" where
  "quiet track_id (WebhookArrives e req) =
     (case body req of
        NotJson \<Rightarrow> True
      | JsonObject t st \<Rightarrow>
          t \<noteq> Some track_id \<or> st \<notin> set [Some ''Paid'', Some ''Confirming'', Some ''Expired'', Some ''Failed''])"
| "quiet track_id (AccessSendEnds e u p l n) = True"
| "quiet track_id (WatcherWakes u t p a) = True"
| "quiet track_id (ExpirySendEnds e u t n a) = (t \<noteq> track_id)"

section \<open>Example worlds\<close>

definition env0 :: env where
  "env0 = \<lparr>env_now = ''2024-01-01T10:00:00'', env_send_ok = True,
           env_gateway = Some (''T1'', ''https://pay.oxapay.com/T1''), env_currency = ''USD''\<rparr>"

definition env1 :: env where
  "env1 = env0\<lparr>env_now := ''2024-01-01T10:30:00''\<rparr>"

definition env_fail :: env where
  "env_fail = env1\<lparr>env_send_ok := False\<rparr>"

definition links0 :: links where
  "links0 = \<lparr>lk_packages = Some [(''100_videos'', ''https://t.me/+abc'')],
             lk_prices = Some [(''100_videos'', PyInt 15), (''1000_videos'', PyInt 35),
                               (''5000_videos'', PyInt 49), (''10000_videos_bot'', PyInt 75)],
             lk_package_status = None\<rparr>"

definition world0 :: world where
  "world0 = \<lparr>payments = [], purchases = [], links_file = Some links0, outbox = [],
             screen = [], gateway_calls = [], tasks = [], logged = []\<rparr>"

definition pay1 :: payment where
  "pay1 = \<lparr>pay_track_id = ''T1'', pay_user_id = 42, pay_package = ''100_videos'',
            pay_amount = 15, pay_currency = ''USD'', pay_status = ''pending'',
            pay_created_at = ''2024-01-01T10:00:00'', pay_completed_at = None\<rparr>"

text \<open>The world after user 42 has asked for the package \<open>100_videos\<close>.\<close>

definition world1 :: world where
  "world1 = world0\<lparr>payments := [pay1]\<rparr>"

definition req_of :: "string \<Rightarrow> string \<Rightarrow> request" where
  "req_of track_id st = \<lparr>headers = [], body = JsonObject (Some track_id) (Some st)\<rparr>"

definition env2 :: env where
  "env2 = env0\<lparr>env_now := ''2024-01-01T11:00:00''\<rparr>"

definition pay1_expired :: payment where
  "pay1_expired = pay1\<lparr>pay_status := ''expired'', pay_completed_at := Some ''2024-01-01T10:30:00''\<rparr>"

definition world_expired :: world where
  "world_expired = world0\<lparr>payments := [pay1_expired]\<rparr>"

definition pay1_completed :: payment where
  "pay1_completed = pay1\<lparr>pay_status := ''completed'', pay_completed_at := Some ''2024-01-01T10:30:00''\<rparr>"

definition world_completed :: world where
  "world_completed = world0\<lparr>payments := [pay1_completed]\<rparr>"

definition world_nolink :: world where
  "world_nolink = world1\<lparr>links_file := Some (links0\<lparr>lk_packages := Some []\<rparr>)\<rparr>"

definition world_repriced :: world where
  "world_repriced = world1\<lparr>links_file := Some (links0\<lparr>lk_prices := Some [(''100_videos'', PyInt 20)]\<rparr>)\<rparr>"

definition world_disabled :: world where
  "world_disabled =
     world0\<lparr>links_file := Some (links0\<lparr>lk_package_status := Some [(''100_videos'', False)]\<rparr>)\<rparr>"

text \<open>
  Prices at the edge of what the \<open>REAL\<close> column keeps: a catalog whose price for
  \<open>100_videos\<close> is \<open>2^53\<close>, the payment invoiced at that price, and the world after the
  price has been raised by one; a price of \<open>2^63\<close>, which cannot be bound; and a price
  of 19.5.
\<close>

definition world_big :: world where
  "world_big =
     world0\<lparr>links_file :=
       Some (links0\<lparr>lk_prices := Some [(''100_videos'', PyInt 9007199254740992)]\<rparr>)\<rparr>"

definition pay_big :: payment where
  "pay_big = pay1\<lparr>pay_amount := 9007199254740992\<rparr>"

definition world_big_repriced :: world where
  "world_big_repriced =
     world0\<lparr>payments := [pay_big],
            links_file :=
              Some (links0\<lparr>lk_prices := Some [(''100_videos'', PyInt 9007199254740993)]\<rparr>)\<rparr>"

definition world_huge :: world where
  "world_huge =
     world1\<lparr>links_file :=
       Some (links0\<lparr>lk_prices := Some [(''100_videos'', PyInt 9223372036854775808)]\<rparr>)\<rparr>"

definition world_fraction :: world where
  "world_fraction =
     world1\<lparr>links_file :=
       Some (links0\<lparr>lk_prices := Some [(''100_videos'', PyFloat (39 / 2))]\<rparr>)\<rparr>"

section \<open>Frame lemmas: what each function leaves unchanged\<close>

lemma find_map_update:
  "find (\<lambda>r. pay_track_id r = t)
     (map (\<lambda>r. if pay_track_id r = t' then r\<lparr>pay_status := s, pay_completed_at := c\<rparr> else r) rows) =
   (if t = t'
    then map_option (\<lambda>r. r\<lparr>pay_status := s, pay_completed_at := c\<rparr>)
           (find (\<lambda>r. pay_track_id r = t) rows)
    else find (\<lambda>r. pay_track_id r = t) rows)"
  by (induction rows) auto

lemma get_payment_update:
  "get_payment t (update_payment_status now t' s w) =
   (if t = t'
    then map_option (\<lambda>r. r\<lparr>pay_status := s, pay_completed_at := Some now\<rparr>) (get_payment t w)
    else get_payment t w)"
  unfolding get_payment_def update_payment_status_def
  by (simp add: find_map_update)

lemma get_payment_log [simp]: "get_payment t (log_msg lv m w) = get_payment t w"
  by (simp add: get_payment_def log_msg_def)

lemma log_frame [simp]:
  "payments (log_msg lv m w) = payments w"
  "purchases (log_msg lv m w) = purchases w"
  "outbox (log_msg lv m w) = outbox w"
  "links_file (log_msg lv m w) = links_file w"
  "tasks (log_msg lv m w) = tasks w"
  by (simp_all add: log_msg_def)

lemma update_frame [simp]:
  "purchases (update_payment_status now t s w) = purchases w"
  "outbox (update_payment_status now t s w) = outbox w"
  "links_file (update_payment_status now t s w) = links_file w"
  "tasks (update_payment_status now t s w) = tasks w"
  by (simp_all add: update_payment_status_def)

lemma add_purchase_frame [simp]:
  "payments (add_purchase now u pk a l w) = payments w"
  "outbox (add_purchase now u pk a l w) = outbox w"
  "links_file (add_purchase now u pk a l w) = links_file w"
  "tasks (add_purchase now u pk a l w) = tasks w"
  by (simp_all add: add_purchase_def log_msg_def split: sum.splits)

lemma add_purchase_stored:
  assumes "int64 u" and "bind_real a = Inr r"
  shows "purchases (add_purchase now u pk a l w) =
           purchases w @
             [\<lparr>pur_user_id = u, pur_package = pk, pur_amount = r, pur_purchased_at = now,
               pur_invite_link = l\<rparr>]"
  using assms by (simp add: add_purchase_def insert_purchase_def bind_integer_def)

lemma add_purchase_unbound:
  assumes "\<not> int64 u \<or> bind_real a = Inl ex"
  shows "add_purchase now u pk a l w = log_msg ERROR ''Error adding purchase'' w"
  using assms by (auto simp add: add_purchase_def insert_purchase_def bind_integer_def)

lemma add_purchase_at_most_one:
  "length (purchases (add_purchase now u pk a l w)) \<le> length (purchases w) + 1"
  by (simp add: add_purchase_def insert_purchase_def bind_integer_def log_msg_def
        split: sum.splits if_splits)

lemma bind_real_exact:
  assumes "bind_real x = Inr r" and "\<forall>n. x = PyInt n \<longrightarrow> \<bar>n\<bar> \<le> 2 ^ 53"
  shows "r = number_value x"
  using assms
  by (cases x) (auto simp add: bind_real_def number_value_def to_double_def split: if_splits)

lemma bind_real_small:
  assumes "\<bar>n\<bar> \<le> 2 ^ 53"
  shows "bind_real (PyInt n) = Inr (of_int n)"
  using assms by (auto simp add: bind_real_def to_double_def int64_def)

lemmas deliver_defs = deliver_access_def deliver_try_def send_message_def Let_def

lemma deliver_access_payments [simp]: "payments (snd (deliver_access e u pk w)) = payments w"
  by (simp add: deliver_defs split: option.splits)

lemma deliver_access_links [simp]: "links_file (snd (deliver_access e u pk w)) = links_file w"
  by (simp add: deliver_defs split: option.splits)

lemma deliver_access_tasks [simp]: "tasks (snd (deliver_access e u pk w)) = tasks w"
  by (simp add: deliver_defs split: option.splits)

lemma get_payment_deliver [simp]: "get_payment t (snd (deliver_access e u pk w)) = get_payment t w"
  by (simp add: get_payment_def)

lemma deliver_access_raises: "fst (deliver_access e u pk w) = Raised ex \<Longrightarrow> ex = KeyError ''packages''"
  by (simp add: deliver_defs split: option.splits if_splits)

lemma load_json_frame [simp]:
  "load_json (log_msg lv m w) = load_json w"
  "load_json (update_payment_status now t s w) = load_json w"
  by (simp_all add: load_json_def)

lemma get_prices_frame [simp]:
  "get_prices (log_msg lv m w) = get_prices w"
  "get_prices (update_payment_status now t s w) = get_prices w"
  by (simp_all add: get_prices_def)

lemma deliver_access_success:
  assumes "lk_packages (load_json w) = Some m" and "map_of m pk = Some l" and "l \<noteq> []"
    and "map_of PACKAGE_NAMES pk = Some name" and "env_send_ok e"
    and "map_of (get_prices w) pk = Some a"
  shows "deliver_access e u pk w =
           (Returned (),
            add_purchase (env_now e) u pk a l (w\<lparr>outbox := outbox w @ [(u, PaymentConfirmed name l)]\<rparr>))"
  using assms by (simp add: deliver_defs get_prices_def load_json_def)

lemma deliver_access_at_most_one:
  "length (purchases (snd (deliver_access e u pk w))) \<le> length (purchases w) + 1"
  "length (outbox (snd (deliver_access e u pk w))) \<le> length (outbox w) + 1"
proof -
  have "length (purchases (add_purchase now u pk a l (w\<lparr>outbox := ob\<rparr>))) \<le> length (purchases w) + 1"
    for now a l ob
    using add_purchase_at_most_one [of now u pk a l "w\<lparr>outbox := ob\<rparr>"] by simp
  then show "length (purchases (snd (deliver_access e u pk w))) \<le> length (purchases w) + 1"
    by (simp add: deliver_defs split: option.splits)
  show "length (outbox (snd (deliver_access e u pk w))) \<le> length (outbox w) + 1"
    by (simp add: deliver_defs split: option.splits)
qed

lemma webhook_known:
  assumes "body req = JsonObject (Some t) st" and "t \<noteq> []"
  shows "oxapay_webhook e req w =
           webhook_except (reconcile e t st (log_msg INFO ''OxaPay webhook received'' w))"
  using assms by (simp add: oxapay_webhook_def webhook_try_def)

lemma webhook_except_frame [simp]:
  "payments (snd (webhook_except x)) = payments (snd x)"
  "purchases (snd (webhook_except x)) = purchases (snd x)"
  "outbox (snd (webhook_except x)) = outbox (snd x)"
  "links_file (snd (webhook_except x)) = links_file (snd x)"
  "tasks (snd (webhook_except x)) = tasks (snd x)"
  by (induction x rule: webhook_except.induct; simp)+

lemma get_payment_webhook_except [simp]:
  "get_payment t (snd (webhook_except x)) = get_payment t (snd x)"
  by (simp add: get_payment_def)

lemma reconcile_completed:
  assumes "get_payment t w = Some p" and "pay_status p = ''completed''"
  shows "reconcile e t st w =
           (Returned [(''status'', ''already_processed'')], log_msg INFO ''Payment already processed'' w)"
  using assms by (simp add: reconcile_def)

lemma reconcile_paid:
  assumes "get_payment t w = Some p" and "pay_status p \<noteq> ''completed''"
    and "st = Some ''Paid'' \<or> st = Some ''Confirming''"
  shows "reconcile e t st w =
           (case deliver_access e (pay_user_id p) (pay_package p)
                   (update_payment_status (env_now e) t ''completed''
                      (log_msg INFO ''Payment successful'' w)) of
              (Raised ex, w1) \<Rightarrow> (Raised ex, w1)
            | (Returned u, w1) \<Rightarrow>
                (Returned [(''status'', ''success''), (''message'', ''Payment processed'')], w1))"
  using assms by (auto simp add: reconcile_def)

lemma snd_paid_case:
  "snd (case x of (Raised ex, w1) \<Rightarrow> (Raised ex, w1::world)
               | (Returned u, w1) \<Rightarrow> (Returned d, w1)) = snd x"
  by (simp split: prod.splits result.splits)

lemma reconcile_frame [simp]:
  "links_file (snd (reconcile e t st w)) = links_file w"
  "tasks (snd (reconcile e t st w)) = tasks w"
  by (simp_all add: reconcile_def snd_paid_case split: option.splits)

lemma reconcile_other_track:
  "t \<noteq> t' \<Longrightarrow> get_payment t (snd (reconcile e t' st w)) = get_payment t w"
  by (simp add: reconcile_def snd_paid_case get_payment_update split: option.splits)

lemma reconcile_same_track:
  assumes "get_payment t w = Some p"
  shows "get_payment t (snd (reconcile e t st w)) = Some p \<or>
         (pay_status p \<noteq> ''completed'' \<and>
          (\<exists>s. terminal s \<and>
               get_payment t (snd (reconcile e t st w)) =
                 Some (p\<lparr>pay_status := s, pay_completed_at := Some (env_now e)\<rparr>)))"
proof (cases "pay_status p = ''completed''")
  case True
  then show ?thesis using assms by (simp add: reconcile_completed [OF assms])
next
  case False
  have t3: "terminal ''completed''" "terminal ''expired''" "terminal ''failed''"
    by (simp_all add: terminal_def)
  consider (paid) "st = Some ''Paid'' \<or> st = Some ''Confirming''"
    | (expired) "st = Some ''Expired''"
    | (failed) "st = Some ''Failed''"
    | (other) "st \<notin> set [Some ''Paid'', Some ''Confirming'', Some ''Expired'', Some ''Failed'']"
    by auto
  then show ?thesis
  proof cases
    case paid
    have "get_payment t (snd (reconcile e t st w)) =
            Some (p\<lparr>pay_status := ''completed'', pay_completed_at := Some (env_now e)\<rparr>)"
      using assms by (simp add: reconcile_paid [OF assms False paid] snd_paid_case get_payment_update)
    then show ?thesis using False t3(1) by blast
  next
    case expired
    have "get_payment t (snd (reconcile e t st w)) =
            Some (p\<lparr>pay_status := ''expired'', pay_completed_at := Some (env_now e)\<rparr>)"
      using assms False expired by (simp add: reconcile_def get_payment_update)
    then show ?thesis using False t3(2) by blast
  next
    case failed
    have "get_payment t (snd (reconcile e t st w)) =
            Some (p\<lparr>pay_status := ''failed'', pay_completed_at := Some (env_now e)\<rparr>)"
      using assms False failed by (simp add: reconcile_def get_payment_update)
    then show ?thesis using False t3(3) by blast
  next
    case other
    have "get_payment t (snd (reconcile e t st w)) = Some p"
      using assms False other by (simp add: reconcile_def)
    then show ?thesis by blast
  qed
qed

lemma webhook_get_payment:
  assumes "get_payment t w = Some p"
  shows "get_payment t (snd (oxapay_webhook e req w)) = Some p \<or>
         (pay_status p \<noteq> ''completed'' \<and>
          (\<exists>s. terminal s \<and>
               get_payment t (snd (oxapay_webhook e req w)) =
                 Some (p\<lparr>pay_status := s, pay_completed_at := Some (env_now e)\<rparr>)))"
proof (cases "body req")
  case NotJson
  then show ?thesis using assms by (simp add: oxapay_webhook_def webhook_try_def)
next
  case (JsonObject tid st)
  show ?thesis
  proof (cases "tid = None \<or> tid = Some []")
    case True
    then show ?thesis using assms JsonObject
      by (auto simp add: oxapay_webhook_def webhook_try_def missing_trackId_def)
  next
    case False
    then obtain t' where t': "tid = Some t'" "t' \<noteq> []" by auto
    let ?w0 = "log_msg INFO ''OxaPay webhook received'' w"
    have eq: "oxapay_webhook e req w = webhook_except (reconcile e t' st ?w0)"
      using webhook_known JsonObject t' by simp
    have p0: "get_payment t ?w0 = Some p" using assms by simp
    show ?thesis
    proof (cases "t' = t")
      case True
      then show ?thesis using reconcile_same_track [OF p0, of e st] eq by simp
    next
      case False
      then show ?thesis using reconcile_other_track [of t t' e st ?w0] eq p0 by simp
    qed
  qed
qed

lemma expiry_notify_get_payment:
  "get_payment t (expiry_notify e u t' pk a w) = get_payment t w \<or>
   get_payment t (expiry_notify e u t' pk a w) =
     get_payment t (update_payment_status (env_now e) t' ''expired'' w)"
  by (simp add: expiry_notify_def expiry_try_def send_message_def get_payment_def
        update_payment_status_def log_msg_def split: option.splits)

lemma watcher_get_payment:
  assumes "get_payment t w = Some p"
  shows "get_payment t (check_payment_expiry e u t' pk a w) = Some p \<or>
         (pay_status p = ''pending'' \<and>
          get_payment t (check_payment_expiry e u t' pk a w) =
            Some (p\<lparr>pay_status := ''expired'', pay_completed_at := Some (env_now e)\<rparr>))"
proof (cases "expiry_pending t' w")
  case False
  then show ?thesis using assms by (simp add: check_payment_expiry_def)
next
  case True
  then have eq: "check_payment_expiry e u t' pk a w = expiry_notify e u t' pk a w"
    by (simp add: check_payment_expiry_def)
  show ?thesis
  proof (cases "t' = t")
    case True
    with \<open>expiry_pending t' w\<close> assms have "pay_status p = ''pending''"
      by (simp add: expiry_pending_def)
    then show ?thesis
      using expiry_notify_get_payment [of t e u t' pk a w] assms eq True
      by (auto simp add: get_payment_update)
  next
    case False
    then show ?thesis
      using expiry_notify_get_payment [of t e u t' pk a w] assms eq
      by (auto simp add: get_payment_update)
  qed
qed

lemma terminal_not_pending: "terminal s \<Longrightarrow> s \<noteq> ''pending''"
  by (auto simp add: terminal_def)

lemmas example_defs =
  env0_def env1_def env2_def env_fail_def links0_def world0_def pay1_def world1_def req_of_def
  pay1_expired_def world_expired_def pay1_completed_def world_completed_def world_nolink_def
  world_repriced_def world_disabled_def world_big_def pay_big_def world_big_repriced_def
  world_huge_def world_fraction_def

lemmas handler_defs =
  oxapay_webhook_def webhook_try_def missing_trackId_def reconcile_def deliver_access_def
  deliver_try_def send_message_def add_purchase_def insert_purchase_def bind_integer_def
  bind_real_def int64_def to_double_def round_double_def excess_bits_def
  update_payment_status_def get_payment_def
  log_msg_def load_json_def get_prices_def PACKAGE_NAMES_def default_prices_def
  check_payment_expiry_def expiry_pending_def expiry_notify_def expiry_try_def
  webhook_begin_def paid_payment_def deliver_begin_def deliver_resume_def expiry_begin_def
  expiry_resume_def run_def idle_def no_expiry_send_def stored_status_def terminal_def Let_def

subsection \<open>The watcher and the invoice\<close>

lemma expiry_notify_sent:
  assumes "map_of PACKAGE_NAMES pk = Some name" and "env_send_ok e"
  shows "expiry_notify e u t pk a w =
           update_payment_status (env_now e) t ''expired''
             (w\<lparr>outbox := outbox w @ [(u, PaymentExpired name a)]\<rparr>)"
  using assms by (simp add: expiry_notify_def expiry_try_def send_message_def)

lemma expiry_notify_send_fails:
  assumes "\<not> env_send_ok e"
  shows "expiry_notify e u t pk a w = log_msg ERROR ''Failed to send expiry notification'' w"
  using assms by (simp add: expiry_notify_def expiry_try_def send_message_def split: option.splits)

lemma expiry_notify_purchases [simp]:
  "purchases (expiry_notify e u t pk a w) = purchases w"
  by (simp add: expiry_notify_def expiry_try_def send_message_def split: option.splits)

lemma get_payment_outbox [simp]:
  "get_payment t (w\<lparr>outbox := ob\<rparr>) = get_payment t w"
  by (simp add: get_payment_def)

lemma add_payment_frame [simp]:
  "tasks (snd (add_payment now t u pk a c w)) = tasks w"
  "purchases (snd (add_payment now t u pk a c w)) = purchases w"
  "outbox (snd (add_payment now t u pk a c w)) = outbox w"
  "screen (snd (add_payment now t u pk a c w)) = screen w"
  "gateway_calls (snd (add_payment now t u pk a c w)) = gateway_calls w"
  "links_file (snd (add_payment now t u pk a c w)) = links_file w"
  by (simp_all add: add_payment_def log_msg_def split: sum.splits)

lemma initiate_payment_tasks:
  "tasks (snd (initiate_payment e u pk w)) = tasks w \<or>
   (\<exists>t a name. map_of PACKAGE_NAMES pk = Some name \<and>
      tasks (snd (initiate_payment e u pk w)) = tasks w @ [(u, t, pk, a)])"
  by (auto simp add: initiate_payment_def create_oxapay_invoice_def create_payment_def
        edit_message_text_def create_task_def log_msg_def
        Let_def split: option.splits)

subsection \<open>A webhook that reports a payment as paid\<close>

lemma webhook_paid_world:
  assumes "get_payment t w = Some p" and "pay_status p \<noteq> ''completed''" and "t \<noteq> []"
    and "body req = JsonObject (Some t) st"
    and "st = Some ''Paid'' \<or> st = Some ''Confirming''"
  shows "oxapay_webhook e req w =
           (case deliver_access e (pay_user_id p) (pay_package p)
                   (update_payment_status (env_now e) t ''completed''
                      (log_msg INFO ''Payment successful''
                         (log_msg INFO ''OxaPay webhook received'' w))) of
              (Returned u, w1) \<Rightarrow>
                (Json200 [(''status'', ''success''), (''message'', ''Payment processed'')], w1)
            | (Raised ex, w1) \<Rightarrow>
                (HttpError 500 (StrOf ex), log_msg ERROR ''Webhook error'' w1))"
proof -
  let ?w1 = "update_payment_status (env_now e) t ''completed''
               (log_msg INFO ''Payment successful'' (log_msg INFO ''OxaPay webhook received'' w))"
  let ?d = "deliver_access e (pay_user_id p) (pay_package p) ?w1"
  have p0: "get_payment t (log_msg INFO ''OxaPay webhook received'' w) = Some p"
    using assms(1) by simp
  have eq: "oxapay_webhook e req w =
              webhook_except (case ?d of (Raised ex, w1) \<Rightarrow> (Raised ex, w1)
                 | (Returned u, w1) \<Rightarrow>
                     (Returned [(''status'', ''success''), (''message'', ''Payment processed'')], w1))"
    using webhook_known [OF assms(4) assms(3)] reconcile_paid [OF p0 assms(2) assms(5)]
    by simp
  show ?thesis
  proof (cases ?d)
    case (Pair r w2)
    show ?thesis
    proof (cases r)
      case (Returned u)
      then show ?thesis using eq Pair by simp
    next
      case (Raised ex)
      then have "fst ?d = Raised ex" using Pair by simp
      then have "ex = KeyError ''packages''" by (rule deliver_access_raises)
      then show ?thesis using eq Pair Raised by simp
    qed
  qed
qed

lemma snd_webhook_case:
  "snd (case x of (Returned u, w1) \<Rightarrow> (Json200 d, w1::world)
               | (Raised ex, w1) \<Rightarrow> (HttpError 500 (StrOf ex), log_msg lv m w1)) =
   (case fst x of Returned u \<Rightarrow> snd x | Raised ex \<Rightarrow> log_msg lv m (snd x))"
  by (simp split: prod.splits result.splits)

lemma webhook_paid_frame:
  assumes "get_payment t w = Some p" and "pay_status p \<noteq> ''completed''" and "t \<noteq> []"
    and "body req = JsonObject (Some t) st"
    and "st = Some ''Paid'' \<or> st = Some ''Confirming''"
  shows "get_payment t (snd (oxapay_webhook e req w)) =
           Some (p\<lparr>pay_status := ''completed'', pay_completed_at := Some (env_now e)\<rparr>)"
    and "purchases (snd (oxapay_webhook e req w)) =
           purchases (snd (deliver_access e (pay_user_id p) (pay_package p)
              (update_payment_status (env_now e) t ''completed''
                 (log_msg INFO ''Payment successful''
                    (log_msg INFO ''OxaPay webhook received'' w)))))"
    and "outbox (snd (oxapay_webhook e req w)) =
           outbox (snd (deliver_access e (pay_user_id p) (pay_package p)
              (update_payment_status (env_now e) t ''completed''
                 (log_msg INFO ''Payment successful''
                    (log_msg INFO ''OxaPay webhook received'' w)))))"
  using assms(1)
  by (simp_all add: webhook_paid_world [OF assms] snd_webhook_case get_payment_update
        split: result.splits)

lemma webhook_paid_at_most_one:
  assumes "get_payment t w = Some p" and "pay_status p \<noteq> ''completed''" and "t \<noteq> []"
    and "body req = JsonObject (Some t) st"
    and "st = Some ''Paid'' \<or> st = Some ''Confirming''"
  shows "length (purchases (snd (oxapay_webhook e req w))) \<le> length (purchases w) + 1"
    and "length (outbox (snd (oxapay_webhook e req w))) \<le> length (outbox w) + 1"
proof -
  let ?w1 = "update_payment_status (env_now e) t ''completed''
               (log_msg INFO ''Payment successful'' (log_msg INFO ''OxaPay webhook received'' w))"
  have a: "purchases ?w1 = purchases w" "outbox ?w1 = outbox w" by simp_all
  show "length (purchases (snd (oxapay_webhook e req w))) \<le> length (purchases w) + 1"
    using deliver_access_at_most_one(1) [of e "pay_user_id p" "pay_package p" ?w1] a
    by (simp add: webhook_paid_frame(2) [OF assms])
  show "length (outbox (snd (oxapay_webhook e req w))) \<le> length (outbox w) + 1"
    using deliver_access_at_most_one(2) [of e "pay_user_id p" "pay_package p" ?w1] a
    by (simp add: webhook_paid_frame(3) [OF assms])
qed

subsection \<open>Events that cannot write a payment's status\<close>

lemma reconcile_quiet:
  "st \<notin> set [Some ''Paid'', Some ''Confirming'', Some ''Expired'', Some ''Failed''] \<Longrightarrow>
   get_payment t (snd (reconcile e t' st w)) = get_payment t w"
  by (simp add: reconcile_def split: option.splits)

subsection \<open>The other branches of the webhook\<close>


lemma webhook_expired:
  assumes "get_payment t w = Some p" and "pay_status p \<noteq> ''completed''" and "t \<noteq> []"
    and "body req = JsonObject (Some t) (Some ''Expired'')"
  shows "oxapay_webhook e req w =
           (Json200 [(''status'', ''expired'')],
            update_payment_status (env_now e) t ''expired''
              (log_msg INFO ''Payment expired'' (log_msg INFO ''OxaPay webhook received'' w)))"
  using assms by (simp add: webhook_known [OF assms(4) assms(3)] reconcile_def)

lemma webhook_failed:
  assumes "get_payment t w = Some p" and "pay_status p \<noteq> ''completed''" and "t \<noteq> []"
    and "body req = JsonObject (Some t) (Some ''Failed'')"
  shows "oxapay_webhook e req w =
           (Json200 [(''status'', ''failed'')],
            update_payment_status (env_now e) t ''failed''
              (log_msg INFO ''Payment failed'' (log_msg INFO ''OxaPay webhook received'' w)))"
  using assms by (simp add: webhook_known [OF assms(4) assms(3)] reconcile_def)

lemma webhook_other_status:
  assumes "get_payment t w = Some p" and "pay_status p \<noteq> ''completed''" and "t \<noteq> []"
    and "body req = JsonObject (Some t) st"
    and "st \<notin> set [Some ''Paid'', Some ''Confirming'', Some ''Expired'', Some ''Failed'']"
  shows "oxapay_webhook e req w =
           (Json200 [(''status'', ''pending'')],
            log_msg INFO ''Payment pending'' (log_msg INFO ''OxaPay webhook received'' w))"
  using assms by (simp add: webhook_known [OF assms(4) assms(3)] reconcile_def)

lemma webhook_missing_trackId:
  assumes "body req = JsonObject None st \<or> body req = JsonObject (Some []) st"
  shows "oxapay_webhook e req w =
           (HttpError 400 (Text ''Missing trackId''),
            log_msg ERROR ''Webhook missing trackId''
              (log_msg INFO ''OxaPay webhook received'' w))"
  using assms by (auto simp add: oxapay_webhook_def webhook_try_def missing_trackId_def)

lemma webhook_internal_failure:
  assumes "fst (webhook_try e req w) = Raised ex" and "\<forall>code msg. ex \<noteq> HTTPException code msg"
  shows "fst (oxapay_webhook e req w) = HttpError 500 (StrOf ex)"
proof -
  obtain w1 where "webhook_try e req w = (Raised ex, w1)"
    using assms(1) by (cases "webhook_try e req w") simp
  then show ?thesis using assms(2) by (cases ex) (simp_all add: oxapay_webhook_def)
qed

lemma webhook_paid_delivered:
  assumes "get_payment t w = Some p" and "pay_status p \<noteq> ''completed''" and "t \<noteq> []"
    and "body req = JsonObject (Some t) st"
    and "st = Some ''Paid'' \<or> st = Some ''Confirming''"
    and "lk_packages (load_json w) = Some m" and "map_of m (pay_package p) = Some l"
    and "l \<noteq> []" and "map_of PACKAGE_NAMES (pay_package p) = Some name"
    and "env_send_ok e" and "map_of (get_prices w) (pay_package p) = Some a"
    and "int64 (pay_user_id p)" and "bind_real a = Inr r"
  shows "purchases (snd (oxapay_webhook e req w)) =
           purchases w @
             [\<lparr>pur_user_id = pay_user_id p, pur_package = pay_package p, pur_amount = r,
               pur_purchased_at = env_now e, pur_invite_link = l\<rparr>]"
    and "outbox (snd (oxapay_webhook e req w)) =
           outbox w @ [(pay_user_id p, PaymentConfirmed name l)]"
    and "fst (oxapay_webhook e req w) =
           Json200 [(''status'', ''success''), (''message'', ''Payment processed'')]"
proof -
  let ?w1 = "update_payment_status (env_now e) t ''completed''
               (log_msg INFO ''Payment successful'' (log_msg INFO ''OxaPay webhook received'' w))"
  have c: "lk_packages (load_json ?w1) = Some m" "map_of (get_prices ?w1) (pay_package p) = Some a"
    using assms(6) assms(11) by simp_all
  have d: "deliver_access e (pay_user_id p) (pay_package p) ?w1 =
             (Returned (),
              add_purchase (env_now e) (pay_user_id p) (pay_package p) a l
                (?w1\<lparr>outbox := outbox ?w1 @ [(pay_user_id p, PaymentConfirmed name l)]\<rparr>))"
    by (rule deliver_access_success [OF c(1) assms(7) assms(8) assms(9) assms(10) c(2)])
  show "purchases (snd (oxapay_webhook e req w)) =
           purchases w @
             [\<lparr>pur_user_id = pay_user_id p, pur_package = pay_package p, pur_amount = r,
               pur_purchased_at = env_now e, pur_invite_link = l\<rparr>]"
    by (simp add: webhook_paid_frame(2) [OF assms(1-5)] d add_purchase_stored [OF assms(12,13)])
  show "outbox (snd (oxapay_webhook e req w)) =
           outbox w @ [(pay_user_id p, PaymentConfirmed name l)]"
    by (simp add: webhook_paid_frame(3) [OF assms(1-5)] d)
  show "fst (oxapay_webhook e req w) =
           Json200 [(''status'', ''success''), (''message'', ''Payment processed'')]"
    by (simp add: webhook_paid_world [OF assms(1-5)] d)
qed

lemma webhook_paid_unrecorded:
  assumes "get_payment t w = Some p" and "pay_status p \<noteq> ''completed''" and "t \<noteq> []"
    and "body req = JsonObject (Some t) st"
    and "st = Some ''Paid'' \<or> st = Some ''Confirming''"
    and "lk_packages (load_json w) = Some m" and "map_of m (pay_package p) = Some l"
    and "l \<noteq> []" and "map_of PACKAGE_NAMES (pay_package p) = Some name"
    and "env_send_ok e" and "map_of (get_prices w) (pay_package p) = Some a"
    and "\<not> int64 (pay_user_id p) \<or> bind_real a = Inl ex"
  shows "purchases (snd (oxapay_webhook e req w)) = purchases w"
    and "outbox (snd (oxapay_webhook e req w)) =
           outbox w @ [(pay_user_id p, PaymentConfirmed name l)]"
proof -
  let ?w1 = "update_payment_status (env_now e) t ''completed''
               (log_msg INFO ''Payment successful'' (log_msg INFO ''OxaPay webhook received'' w))"
  have c: "lk_packages (load_json ?w1) = Some m" "map_of (get_prices ?w1) (pay_package p) = Some a"
    using assms(6) assms(11) by simp_all
  have d: "deliver_access e (pay_user_id p) (pay_package p) ?w1 =
             (Returned (),
              add_purchase (env_now e) (pay_user_id p) (pay_package p) a l
                (?w1\<lparr>outbox := outbox ?w1 @ [(pay_user_id p, PaymentConfirmed name l)]\<rparr>))"
    by (rule deliver_access_success [OF c(1) assms(7) assms(8) assms(9) assms(10) c(2)])
  show "purchases (snd (oxapay_webhook e req w)) = purchases w"
    by (simp add: webhook_paid_frame(2) [OF assms(1-5)] d add_purchase_unbound [OF assms(12)])
  show "outbox (snd (oxapay_webhook e req w)) =
           outbox w @ [(pay_user_id p, PaymentConfirmed name l)]"
    by (simp add: webhook_paid_frame(3) [OF assms(1-5)] d)
qed

subsection \<open>The handlers are their segments run one after the other\<close>

lemma deliver_access_segments:
  "deliver_access e u pk w =
     (case deliver_begin u pk w of
        (r, w1, None) \<Rightarrow> (r, w1)
      | (r, w1, Some (l, name)) \<Rightarrow> (Returned (), deliver_resume e u pk l name w1))"
  by (simp add: deliver_access_def deliver_try_def deliver_begin_def deliver_resume_def
        send_message_def Let_def split: option.splits)

lemma check_payment_expiry_segments:
  "check_payment_expiry e u t pk a w =
     (case expiry_begin t pk w of
        (w1, None) \<Rightarrow> w1
      | (w1, Some name) \<Rightarrow> expiry_resume e u t name a w1)"
  by (simp add: check_payment_expiry_def expiry_notify_def expiry_try_def expiry_begin_def
        expiry_resume_def send_message_def split: option.splits)

lemma paid_payment_Some:
  assumes "paid_payment req w = Some (t, p)"
  shows "\<exists>st. body req = JsonObject (Some t) st \<and>
              (st = Some ''Paid'' \<or> st = Some ''Confirming'') \<and> t \<noteq> [] \<and>
              get_payment t w = Some p \<and> pay_status p \<noteq> ''completed''"
  using assms
  by (auto simp add: paid_payment_def split: body.splits option.splits if_splits)

lemma webhook_segments:
  "snd (oxapay_webhook e req w) =
     (case webhook_begin e req w of
        (w1, None) \<Rightarrow> w1
      | (w1, Some (u, pk, l, name)) \<Rightarrow> deliver_resume e u pk l name w1)"
proof (cases "paid_payment req w")
  case None
  then show ?thesis by (simp add: webhook_begin_def)
next
  case (Some tp)
  obtain t p where tp: "tp = (t, p)" by (cases tp)
  from paid_payment_Some [OF Some [unfolded tp]] obtain st where
    h: "body req = JsonObject (Some t) st" "st = Some ''Paid'' \<or> st = Some ''Confirming''"
       "t \<noteq> []" "get_payment t w = Some p" "pay_status p \<noteq> ''completed''"
    by blast
  let ?w1 = "update_payment_status (env_now e) t ''completed''
               (log_msg INFO ''Payment successful'' (log_msg INFO ''OxaPay webhook received'' w))"
  let ?d = "deliver_access e (pay_user_id p) (pay_package p) ?w1"
  have eq: "snd (oxapay_webhook e req w) =
              (case fst ?d of Returned u \<Rightarrow> snd ?d
                            | Raised ex \<Rightarrow> log_msg ERROR ''Webhook error'' (snd ?d))"
    by (simp add: webhook_paid_world [OF h(4) h(5) h(3) h(1) h(2)] snd_webhook_case)
  have wb: "webhook_begin e req w =
              (case deliver_begin (pay_user_id p) (pay_package p) ?w1 of
                 (Raised ex, w1, d) \<Rightarrow> (log_msg ERROR ''Webhook error'' w1, None)
               | (Returned u, w1, None) \<Rightarrow> (w1, None)
               | (Returned u, w1, Some (invite_link, name)) \<Rightarrow>
                   (w1, Some (pay_user_id p, pay_package p, invite_link, name)))"
    using Some tp by (simp add: webhook_begin_def)
  obtain r w2 d where db: "deliver_begin (pay_user_id p) (pay_package p) ?w1 = (r, w2, d)"
    by (cases "deliver_begin (pay_user_id p) (pay_package p) ?w1") auto
  have raised: "r = Raised ex \<Longrightarrow> d = None" for ex
    using db by (auto simp add: deliver_begin_def Let_def split: option.splits if_splits)
  show ?thesis
    unfolding eq wb deliver_access_segments db
    using raised by (cases r; cases d) auto
qed

subsection \<open>What a step of the event loop does to a payment\<close>

lemma deliver_resume_frame [simp]:
  "payments (deliver_resume e u pk l name w) = payments w"
  "links_file (deliver_resume e u pk l name w) = links_file w"
  "tasks (deliver_resume e u pk l name w) = tasks w"
  by (simp_all add: deliver_resume_def send_message_def split: option.splits)

lemma get_payment_deliver_resume [simp]:
  "get_payment t (deliver_resume e u pk l name w) = get_payment t w"
  by (simp add: get_payment_def)

lemma webhook_begin_get_payment:
  "get_payment t (fst (webhook_begin e req w)) = get_payment t (snd (oxapay_webhook e req w))"
  by (simp add: webhook_segments split: prod.splits option.splits)

lemma expiry_begin_get_payment [simp]:
  "get_payment t (fst (expiry_begin t' pk w)) = get_payment t w"
  by (simp add: expiry_begin_def split: option.splits)

lemma expiry_begin_registers:
  "snd (expiry_begin t' pk w) = Some name \<Longrightarrow> expiry_pending t' w"
  by (simp add: expiry_begin_def split: if_splits option.splits)

lemma expiry_resume_get_payment:
  "get_payment t (expiry_resume e u t' name a w) = get_payment t w \<or>
   get_payment t (expiry_resume e u t' name a w) =
     get_payment t (update_payment_status (env_now e) t' ''expired'' w)"
  by (simp add: expiry_resume_def send_message_def get_payment_def update_payment_status_def
        log_msg_def)

lemma expiry_resume_other_track:
  "t' \<noteq> t \<Longrightarrow> get_payment t (expiry_resume e u t' name a w) = get_payment t w"
  using expiry_resume_get_payment [of t e u t' name a w] by (auto simp add: get_payment_update)

lemma step_world:
  "sys_world (step (WebhookArrives e req) s) = fst (webhook_begin e req (sys_world s))"
  "sys_world (step (WatcherWakes u t pk a) s) = fst (expiry_begin t pk (sys_world s))"
  "sys_world (step (AccessSendEnds e u pk l name) s) =
     (if (u, pk, l, name) \<in> set (access_sends s)
      then deliver_resume e u pk l name (sys_world s) else sys_world s)"
  "sys_world (step (ExpirySendEnds e u t name a) s) =
     (if (u, t, name, a) \<in> set (expiry_sends s)
      then expiry_resume e u t name a (sys_world s) else sys_world s)"
  by (simp_all split: prod.splits option.splits)

lemma step_expiry_sends:
  "expiry_sends (step (WebhookArrives e req) s) = expiry_sends s"
  "expiry_sends (step (AccessSendEnds e u pk l name) s) = expiry_sends s"
  "expiry_sends (step (WatcherWakes u t pk a) s) =
     (case snd (expiry_begin t pk (sys_world s)) of
        None \<Rightarrow> expiry_sends s
      | Some name \<Rightarrow> expiry_sends s @ [(u, t, name, a)])"
  "expiry_sends (step (ExpirySendEnds e u t name a) s) =
     (if (u, t, name, a) \<in> set (expiry_sends s)
      then remove1 (u, t, name, a) (expiry_sends s) else expiry_sends s)"
  by (simp_all split: prod.splits option.splits)

lemma step_get_payment:
  assumes "get_payment t (sys_world s) = Some p"
  shows "get_payment t (sys_world (step ev s)) = Some p \<or>
         (\<exists>st now. terminal st \<and>
            get_payment t (sys_world (step ev s)) =
              Some (p\<lparr>pay_status := st, pay_completed_at := Some now\<rparr>))"
proof (cases ev)
  case (WebhookArrives e req)
  then show ?thesis
    using webhook_get_payment [OF assms, of e req]
    by (auto simp del: step.simps simp add: step_world webhook_begin_get_payment)
next
  case (AccessSendEnds e u pk l name)
  then show ?thesis using assms by (simp del: step.simps add: step_world)
next
  case (WatcherWakes u t' pk a)
  then show ?thesis using assms by (simp del: step.simps add: step_world)
next
  case (ExpirySendEnds e u t' name a)
  have tm: "terminal ''expired''" by (simp add: terminal_def)
  consider (same) "get_payment t (sys_world (step ev s)) = Some p"
    | (upd) "get_payment t (sys_world (step ev s)) =
               get_payment t (update_payment_status (env_now e) t' ''expired'' (sys_world s))"
    using ExpirySendEnds assms expiry_resume_get_payment [of t e u t' name a "sys_world s"]
    by (cases "(u, t', name, a) \<in> set (expiry_sends s)")
       (auto simp del: step.simps simp add: step_world)
  then show ?thesis
  proof cases
    case same
    then show ?thesis by simp
  next
    case upd
    show ?thesis
    proof (cases "t = t'")
      case True
      then have "get_payment t (sys_world (step ev s)) =
                   Some (p\<lparr>pay_status := ''expired'', pay_completed_at := Some (env_now e)\<rparr>)"
        using upd assms by (simp add: get_payment_update)
      then show ?thesis using tm by blast
    next
      case False
      then show ?thesis using upd assms by (simp add: get_payment_update)
    qed
  qed
qed

lemma no_expiry_send_member:
  "no_expiry_send t s \<Longrightarrow> (u, t', name, a) \<in> set (expiry_sends s) \<Longrightarrow> t' \<noteq> t"
  by (force simp add: no_expiry_send_def)

lemma no_expiry_send_remove1:
  assumes "no_expiry_send t s" and "expiry_sends s' = remove1 x (expiry_sends s)"
  shows "no_expiry_send t s'"
proof -
  have "set (expiry_sends s') \<subseteq> set (expiry_sends s)"
    using assms(2) set_remove1_subset [of x "expiry_sends s"] by simp
  then have "(\<lambda>(u, t, n, a). t) ` set (expiry_sends s') \<subseteq>
             (\<lambda>(u, t, n, a). t) ` set (expiry_sends s)"
    by (rule image_mono)
  then show ?thesis using assms(1) by (auto simp add: no_expiry_send_def)
qed

lemma step_completed:
  assumes "get_payment t (sys_world s) = Some p" and "pay_status p = ''completed''"
    and "no_expiry_send t s"
  shows "get_payment t (sys_world (step ev s)) = Some p \<and> no_expiry_send t (step ev s)"
proof (cases ev)
  case (WebhookArrives e req)
  have "get_payment t (sys_world (step ev s)) = Some p"
    using WebhookArrives webhook_get_payment [OF assms(1), of e req] assms(2)
    by (simp del: step.simps add: step_world webhook_begin_get_payment)
  moreover have "no_expiry_send t (step ev s)"
    using WebhookArrives assms(3) by (simp del: step.simps add: no_expiry_send_def step_expiry_sends)
  ultimately show ?thesis by simp
next
  case (AccessSendEnds e u pk l name)
  have "get_payment t (sys_world (step ev s)) = Some p"
    using AccessSendEnds assms(1) by (simp del: step.simps add: step_world)
  moreover have "no_expiry_send t (step ev s)"
    using AccessSendEnds assms(3) by (simp del: step.simps add: no_expiry_send_def step_expiry_sends)
  ultimately show ?thesis by simp
next
  case (WatcherWakes u t' pk a)
  have g: "get_payment t (sys_world (step ev s)) = Some p"
    using WatcherWakes assms(1) by (simp del: step.simps add: step_world)
  have "no_expiry_send t (step ev s)"
  proof (cases "snd (expiry_begin t' pk (sys_world s))")
    case None
    then show ?thesis
      using WatcherWakes assms(3) by (simp del: step.simps add: no_expiry_send_def step_expiry_sends)
  next
    case (Some name)
    then have "expiry_pending t' (sys_world s)" by (rule expiry_begin_registers)
    then have "t' \<noteq> t" using assms(1,2) by (auto simp add: expiry_pending_def)
    then show ?thesis
      using WatcherWakes Some assms(3) by (simp del: step.simps add: no_expiry_send_def step_expiry_sends)
  qed
  then show ?thesis using g by simp
next
  case (ExpirySendEnds e u t' name a)
  show ?thesis
  proof (cases "(u, t', name, a) \<in> set (expiry_sends s)")
    case False
    then show ?thesis
      using ExpirySendEnds assms(1,3) by (simp add: no_expiry_send_def)
  next
    case True
    then have "t' \<noteq> t" using assms(3) by (rule no_expiry_send_member [rotated])
    then have "get_payment t (sys_world (step ev s)) = Some p"
      using ExpirySendEnds True assms(1) by (simp del: step.simps add: step_world expiry_resume_other_track)
    moreover have "no_expiry_send t (step ev s)"
      using ExpirySendEnds True
      by (intro no_expiry_send_remove1 [OF assms(3), of _ "(u, t', name, a)"])
         (simp del: step.simps add: step_expiry_sends)
    ultimately show ?thesis by simp
  qed
qed

lemma run_Nil: "run [] s = s"
  by (simp add: run_def)

lemma run_Cons: "run (ev # evs) s = run evs (step ev s)"
  by (simp add: run_def)

lemma run_completed:
  "get_payment t (sys_world s) = Some p \<Longrightarrow> pay_status p = ''completed'' \<Longrightarrow>
   no_expiry_send t s \<Longrightarrow> get_payment t (sys_world (run evs s)) = Some p"
proof (induction evs arbitrary: s)
  case Nil
  then show ?case by (simp add: run_Nil)
next
  case (Cons ev evs)
  from step_completed [OF Cons.prems, of ev]
  have "get_payment t (sys_world (step ev s)) = Some p" "no_expiry_send t (step ev s)"
    by simp_all
  then show ?case using Cons.IH Cons.prems(2) by (simp add: run_Cons)
qed

lemma run_terminal:
  "get_payment t (sys_world s) = Some p \<Longrightarrow> terminal (pay_status p) \<Longrightarrow>
   \<exists>q. get_payment t (sys_world (run evs s)) = Some q \<and> terminal (pay_status q)"
proof (induction evs arbitrary: s p)
  case Nil
  then show ?case by (simp add: run_Nil)
next
  case (Cons ev evs)
  from step_get_payment [OF Cons.prems(1), of ev] Cons.prems(2)
  obtain q where "get_payment t (sys_world (step ev s)) = Some q" "terminal (pay_status q)"
    by auto
  then show ?case using Cons.IH by (simp add: run_Cons)
qed

lemma run_not_pending:
  "get_payment t (sys_world s) = Some p \<Longrightarrow> pay_status p \<noteq> ''pending'' \<Longrightarrow>
   \<exists>q. get_payment t (sys_world (run evs s)) = Some q \<and> pay_status q \<noteq> ''pending''"
proof (induction evs arbitrary: s p)
  case Nil
  then show ?case by (simp add: run_Nil)
next
  case (Cons ev evs)
  from step_get_payment [OF Cons.prems(1), of ev] Cons.prems(2) terminal_not_pending
  obtain q where "get_payment t (sys_world (step ev s)) = Some q" "pay_status q \<noteq> ''pending''"
    by auto
  then show ?case using Cons.IH by (simp add: run_Cons)
qed

subsection \<open>Events that cannot write a payment's status\<close>

lemma webhook_quiet:
  assumes "quiet t (WebhookArrives e req)"
  shows "get_payment t (snd (oxapay_webhook e req w)) = get_payment t w"
proof (cases "body req")
  case NotJson
  then show ?thesis by (simp add: oxapay_webhook_def webhook_try_def)
next
  case (JsonObject tid st)
  show ?thesis
  proof (cases "tid = None \<or> tid = Some []")
    case True
    then show ?thesis using JsonObject
      by (auto simp add: oxapay_webhook_def webhook_try_def missing_trackId_def)
  next
    case False
    then obtain t' where t': "tid = Some t'" "t' \<noteq> []" by auto
    have eq: "oxapay_webhook e req w =
                webhook_except (reconcile e t' st (log_msg INFO ''OxaPay webhook received'' w))"
      using webhook_known JsonObject t' by simp
    have "t' \<noteq> t \<or>
          st \<notin> set [Some ''Paid'', Some ''Confirming'', Some ''Expired'', Some ''Failed'']"
      using assms JsonObject t' by auto
    then show ?thesis
      using eq reconcile_quiet [of st t e t'] reconcile_other_track [of t t' e st]
      by auto
  qed
qed

lemma step_quiet:
  assumes "quiet t ev"
  shows "get_payment t (sys_world (step ev s)) = get_payment t (sys_world s)"
proof (cases ev)
  case (WebhookArrives e req)
  then show ?thesis
    using assms webhook_quiet [of t e req "sys_world s"]
    by (simp del: step.simps add: step_world webhook_begin_get_payment)
next
  case (AccessSendEnds e u pk l name)
  then show ?thesis by (simp del: step.simps add: step_world)
next
  case (WatcherWakes u t' pk a)
  then show ?thesis by (simp del: step.simps add: step_world)
next
  case (ExpirySendEnds e u t' name a)
  then have "t' \<noteq> t" using assms by simp
  then show ?thesis using ExpirySendEnds by (simp del: step.simps add: step_world expiry_resume_other_track)
qed

lemma run_quiet:
  "\<forall>ev \<in> set evs. quiet t ev \<Longrightarrow>
   get_payment t (sys_world (run evs s)) = get_payment t (sys_world s)"
  by (induction evs arbitrary: s) (simp_all add: run_def step_quiet)

section \<open>C1: terminal states\<close>

text \<open>
  \<^bold>\<open>C1\<close>, as amended. \<open>update_payment_status\<close> has no guard: for a known track id it
  overwrites the status and \<open>completed_at\<close> whatever the stored status is. What the
  handlers guarantee is narrower. From any state of the event loop and over every
  schedule of its events (webhook handlers and watchers interleaved at their awaits): a
  payment in a terminal state stays in a terminal state, and a payment that is not
  \<open>pending\<close> never becomes \<open>pending\<close>. A payment whose status is \<open>completed\<close> keeps its
  whole row (status and \<open>completed_at\<close> included) provided no watcher of its track id is
  suspended in its send at that moment; a watcher that read \<open>pending\<close> before the payment
  was completed and is still awaiting its send overwrites \<open>completed\<close> with \<open>expired\<close>
  when it resumes.
\<close>

theorem terminal_status_under_events:
  assumes "get_payment t (sys_world s) = Some p"
  shows "get_payment t (update_payment_status now t st (sys_world s)) =
           Some (p\<lparr>pay_status := st, pay_completed_at := Some now\<rparr>) \<and>
         (pay_status p = ''completed'' \<and> no_expiry_send t s \<longrightarrow>
            get_payment t (sys_world (run evs s)) = Some p) \<and>
         (terminal (pay_status p) \<longrightarrow>
            (\<exists>q. get_payment t (sys_world (run evs s)) = Some q \<and> terminal (pay_status q))) \<and>
         (pay_status p \<noteq> ''pending'' \<longrightarrow>
            (\<exists>q. get_payment t (sys_world (run evs s)) = Some q \<and> pay_status q \<noteq> ''pending''))"
proof -
  have a: "get_payment t (update_payment_status now t st (sys_world s)) =
             Some (p\<lparr>pay_status := st, pay_completed_at := Some now\<rparr>)"
    using assms by (simp add: get_payment_update)
  have b: "pay_status p = ''completed'' \<and> no_expiry_send t s \<longrightarrow>
             get_payment t (sys_world (run evs s)) = Some p"
    using run_completed [OF assms] by blast
  have c: "terminal (pay_status p) \<longrightarrow>
             (\<exists>q. get_payment t (sys_world (run evs s)) = Some q \<and> terminal (pay_status q))"
    using run_terminal [OF assms] by blast
  have d: "pay_status p \<noteq> ''pending'' \<longrightarrow>
             (\<exists>q. get_payment t (sys_world (run evs s)) = Some q \<and> pay_status q \<noteq> ''pending'')"
    using run_not_pending [OF assms] by blast
  show ?thesis using a b c d by (intro conjI)
qed

text \<open>The theorem at a completed payment of track id \<open>T1\<close> with no handler suspended,
  over an Expired webhook, a watcher that wakes, the end of a send nobody awaits and a
  Paid webhook.\<close>

theorem terminal_status_under_events_witness:
  "get_payment ''T1'' (sys_world (idle world_completed)) = Some pay1_completed \<and>
   pay_status pay1_completed = ''completed'' \<and>
   no_expiry_send ''T1'' (idle world_completed) \<and>
   terminal (pay_status pay1_completed) \<and>
   get_payment ''T1''
     (sys_world
        (run [WebhookArrives env2 (req_of ''T1'' ''Expired''),
              WatcherWakes 42 ''T1'' ''100_videos'' (PyInt 15),
              ExpirySendEnds env2 42 ''T1'' ''100 Videos'' (PyInt 15),
              WebhookArrives env2 (req_of ''T1'' ''Paid'')] (idle world_completed)))
     = Some pay1_completed"
proof -
  have h: "get_payment ''T1'' (sys_world (idle world_completed)) = Some pay1_completed"
    by (simp add: get_payment_def idle_def example_defs)
  have c: "pay_status pay1_completed = ''completed''"
    by (simp add: example_defs)
  have n: "no_expiry_send ''T1'' (idle world_completed)"
    by (simp add: no_expiry_send_def idle_def)
  have t: "terminal (pay_status pay1_completed)"
    using c by (simp add: terminal_def)
  note th = terminal_status_under_events [OF h,
      of _ _ "[WebhookArrives env2 (req_of ''T1'' ''Expired''),
           WatcherWakes 42 ''T1'' ''100_videos'' (PyInt 15),
           ExpirySendEnds env2 42 ''T1'' ''100 Videos'' (PyInt 15),
           WebhookArrives env2 (req_of ''T1'' ''Paid'')]"]
  have r: "get_payment ''T1''
     (sys_world
        (run [WebhookArrives env2 (req_of ''T1'' ''Expired''),
              WatcherWakes 42 ''T1'' ''100_videos'' (PyInt 15),
              ExpirySendEnds env2 42 ''T1'' ''100 Videos'' (PyInt 15),
              WebhookArrives env2 (req_of ''T1'' ''Paid'')] (idle world_completed)))
     = Some pay1_completed"
    using th c n by blast
  show ?thesis using h c n t r by (intro conjI)
qed

text \<open>
  C1 as stated fails: on the expired payment \<open>T1\<close>, \<open>update_payment_status\<close> with
  \<open>completed\<close> changes the status and \<open>completed_at\<close>, with \<open>pending\<close> it puts the
  payment back to pending, and a Paid webhook moves the expired payment to \<open>completed\<close>
  (the handler only tests for \<open>completed\<close>). A completed payment is not safe either: the
  watcher of the pending payment \<open>T1\<close> wakes and awaits its send, the Paid webhook
  completes the payment and delivers access, and the watcher, resumed, writes \<open>expired\<close>
  over \<open>completed\<close>.
\<close>

theorem terminal_status_counterexample:
  "stored_status ''T1'' world_expired = Some ''expired'' \<and>
   terminal ''expired'' \<and>
   stored_status ''T1'' (update_payment_status (env_now env2) ''T1'' ''completed'' world_expired)
     = Some ''completed'' \<and>
   stored_status ''T1'' (update_payment_status (env_now env2) ''T1'' ''pending'' world_expired)
     = Some ''pending'' \<and>
   map_option pay_completed_at (get_payment ''T1'' world_expired)
     = Some (Some ''2024-01-01T10:30:00'') \<and>
   map_option pay_completed_at
       (get_payment ''T1'' (update_payment_status (env_now env2) ''T1'' ''completed'' world_expired))
     = Some (Some ''2024-01-01T11:00:00'') \<and>
   stored_status ''T1''
     (sys_world (run [WebhookArrives env2 (req_of ''T1'' ''Paid'')] (idle world_expired)))
     = Some ''completed'' \<and>
   stored_status ''T1''
     (sys_world
        (run [WatcherWakes 42 ''T1'' ''100_videos'' (PyInt 15),
              WebhookArrives env1 (req_of ''T1'' ''Paid''),
              AccessSendEnds env1 42 ''100_videos'' ''https://t.me/+abc'' ''100 Videos'']
           (idle world1)))
     = Some ''completed'' \<and>
   stored_status ''T1''
     (sys_world
        (run [WatcherWakes 42 ''T1'' ''100_videos'' (PyInt 15),
              WebhookArrives env1 (req_of ''T1'' ''Paid''),
              AccessSendEnds env1 42 ''100_videos'' ''https://t.me/+abc'' ''100 Videos'',
              ExpirySendEnds env2 42 ''T1'' ''100 Videos'' (PyInt 15)]
           (idle world1)))
     = Some ''expired''"
  by (simp add: handler_defs example_defs)

section \<open>C2: the Paid webhook delivered twice\<close>




section \<open>C3: how the webhook maps the reported status\<close>

text \<open>
  \<^bold>\<open>C3\<close>. For a request whose \<open>trackId\<close> is that of a stored payment that is not
  \<open>completed\<close>:
  \<^item> \<open>Paid\<close> or \<open>Confirming\<close>: the status \<open>completed\<close> is written, then \<open>deliver_access\<close>
    is called on the world that holds it, and the response is the tag \<open>success\<close> (HTTP
    500 if \<open>deliver_access\<close> raises, the status staying \<open>completed\<close>);
  \<^item> \<open>Expired\<close>: the status \<open>expired\<close> is written, tag \<open>expired\<close>;
  \<^item> \<open>Failed\<close>: the status \<open>failed\<close> is written, tag \<open>failed\<close>;
  \<^item> any other reported status, or none: tag \<open>pending\<close>, and only the log changes.

  A request without \<open>trackId\<close> (or with an empty one) is answered with HTTP 400, and any
  exception of the handler's body other than that \<open>HTTPException\<close> with HTTP 500.
\<close>

theorem webhook_status_mapping:
  "(get_payment t w = Some p \<and> pay_status p \<noteq> ''completed'' \<and> t \<noteq> [] \<and>
    body req = JsonObject (Some t) st \<longrightarrow>
      (st = Some ''Paid'' \<or> st = Some ''Confirming'' \<longrightarrow>
         get_payment t (snd (oxapay_webhook e req w)) =
           Some (p\<lparr>pay_status := ''completed'', pay_completed_at := Some (env_now e)\<rparr>) \<and>
         oxapay_webhook e req w =
           (case deliver_access e (pay_user_id p) (pay_package p)
                   (update_payment_status (env_now e) t ''completed''
                      (log_msg INFO ''Payment successful''
                         (log_msg INFO ''OxaPay webhook received'' w))) of
              (Returned u, w1) \<Rightarrow>
                (Json200 [(''status'', ''success''), (''message'', ''Payment processed'')], w1)
            | (Raised ex, w1) \<Rightarrow>
                (HttpError 500 (StrOf ex), log_msg ERROR ''Webhook error'' w1))) \<and>
      (st = Some ''Expired'' \<longrightarrow>
         get_payment t (snd (oxapay_webhook e req w)) =
           Some (p\<lparr>pay_status := ''expired'', pay_completed_at := Some (env_now e)\<rparr>) \<and>
         oxapay_webhook e req w =
           (Json200 [(''status'', ''expired'')],
            update_payment_status (env_now e) t ''expired''
              (log_msg INFO ''Payment expired'' (log_msg INFO ''OxaPay webhook received'' w)))) \<and>
      (st = Some ''Failed'' \<longrightarrow>
         get_payment t (snd (oxapay_webhook e req w)) =
           Some (p\<lparr>pay_status := ''failed'', pay_completed_at := Some (env_now e)\<rparr>) \<and>
         oxapay_webhook e req w =
           (Json200 [(''status'', ''failed'')],
            update_payment_status (env_now e) t ''failed''
              (log_msg INFO ''Payment failed'' (log_msg INFO ''OxaPay webhook received'' w)))) \<and>
      (st \<notin> set [Some ''Paid'', Some ''Confirming'', Some ''Expired'', Some ''Failed''] \<longrightarrow>
         oxapay_webhook e req w =
           (Json200 [(''status'', ''pending'')],
            log_msg INFO ''Payment pending'' (log_msg INFO ''OxaPay webhook received'' w)))) \<and>
   (body req = JsonObject None st \<or> body req = JsonObject (Some []) st \<longrightarrow>
      oxapay_webhook e req w =
        (HttpError 400 (Text ''Missing trackId''),
         log_msg ERROR ''Webhook missing trackId'' (log_msg INFO ''OxaPay webhook received'' w))) \<and>
   (fst (webhook_try e req w) = Raised ex \<and> (\<forall>code msg. ex \<noteq> HTTPException code msg) \<longrightarrow>
      fst (oxapay_webhook e req w) = HttpError 500 (StrOf ex))"
proof -
  have known: "get_payment t w = Some p \<and> pay_status p \<noteq> ''completed'' \<and> t \<noteq> [] \<and>
    body req = JsonObject (Some t) st \<longrightarrow>
      (st = Some ''Paid'' \<or> st = Some ''Confirming'' \<longrightarrow>
         get_payment t (snd (oxapay_webhook e req w)) =
           Some (p\<lparr>pay_status := ''completed'', pay_completed_at := Some (env_now e)\<rparr>) \<and>
         oxapay_webhook e req w =
           (case deliver_access e (pay_user_id p) (pay_package p)
                   (update_payment_status (env_now e) t ''completed''
                      (log_msg INFO ''Payment successful''
                         (log_msg INFO ''OxaPay webhook received'' w))) of
              (Returned u, w1) \<Rightarrow>
                (Json200 [(''status'', ''success''), (''message'', ''Payment processed'')], w1)
            | (Raised ex, w1) \<Rightarrow>
                (HttpError 500 (StrOf ex), log_msg ERROR ''Webhook error'' w1))) \<and>
      (st = Some ''Expired'' \<longrightarrow>
         get_payment t (snd (oxapay_webhook e req w)) =
           Some (p\<lparr>pay_status := ''expired'', pay_completed_at := Some (env_now e)\<rparr>) \<and>
         oxapay_webhook e req w =
           (Json200 [(''status'', ''expired'')],
            update_payment_status (env_now e) t ''expired''
              (log_msg INFO ''Payment expired'' (log_msg INFO ''OxaPay webhook received'' w)))) \<and>
      (st = Some ''Failed'' \<longrightarrow>
         get_payment t (snd (oxapay_webhook e req w)) =
           Some (p\<lparr>pay_status := ''failed'', pay_completed_at := Some (env_now e)\<rparr>) \<and>
         oxapay_webhook e req w =
           (Json200 [(''status'', ''failed'')],
            update_payment_status (env_now e) t ''failed''
              (log_msg INFO ''Payment failed'' (log_msg INFO ''OxaPay webhook received'' w)))) \<and>
      (st \<notin> set [Some ''Paid'', Some ''Confirming'', Some ''Expired'', Some ''Failed''] \<longrightarrow>
         oxapay_webhook e req w =
           (Json200 [(''status'', ''pending'')],
            log_msg INFO ''Payment pending'' (log_msg INFO ''OxaPay webhook received'' w)))"
    (is "?A \<longrightarrow> (?P \<longrightarrow> ?PG \<and> ?PE) \<and> (?X \<longrightarrow> ?XG \<and> ?XE) \<and> (?F \<longrightarrow> ?FG \<and> ?FE) \<and> (?O \<longrightarrow> ?OE)")
  proof
    assume a: ?A
    then have a1: "get_payment t w = Some p" and a2: "pay_status p \<noteq> ''completed''"
      and a3: "t \<noteq> []" and a4: "body req = JsonObject (Some t) st"
      by simp_all
    have paid: "?P \<longrightarrow> ?PG \<and> ?PE"
    proof
      assume s: ?P
      show "?PG \<and> ?PE"
        using webhook_paid_frame(1) [OF a1 a2 a3 a4 s, of e] webhook_paid_world [OF a1 a2 a3 a4 s, of e]
        by (rule conjI)
    qed
    have expired: "?X \<longrightarrow> ?XG \<and> ?XE"
    proof
      assume s: ?X
      have b: "body req = JsonObject (Some t) (Some ''Expired'')" using a4 s by simp
      have eq: ?XE by (rule webhook_expired [OF a1 a2 a3 b])
      have g: ?XG using a1 by (simp add: eq get_payment_update)
      show "?XG \<and> ?XE" using g eq by (rule conjI)
    qed
    have failed: "?F \<longrightarrow> ?FG \<and> ?FE"
    proof
      assume s: ?F
      have b: "body req = JsonObject (Some t) (Some ''Failed'')" using a4 s by simp
      have eq: ?FE by (rule webhook_failed [OF a1 a2 a3 b])
      have g: ?FG using a1 by (simp add: eq get_payment_update)
      show "?FG \<and> ?FE" using g eq by (rule conjI)
    qed
    have other: "?O \<longrightarrow> ?OE"
    proof
      assume s: ?O
      show ?OE by (rule webhook_other_status [OF a1 a2 a3 a4 s])
    qed
    show "(?P \<longrightarrow> ?PG \<and> ?PE) \<and> (?X \<longrightarrow> ?XG \<and> ?XE) \<and> (?F \<longrightarrow> ?FG \<and> ?FE) \<and> (?O \<longrightarrow> ?OE)"
      using paid expired failed other by (intro conjI)
  qed
  have missing: "body req = JsonObject None st \<or> body req = JsonObject (Some []) st \<longrightarrow>
      oxapay_webhook e req w =
        (HttpError 400 (Text ''Missing trackId''),
         log_msg ERROR ''Webhook missing trackId'' (log_msg INFO ''OxaPay webhook received'' w))"
    using webhook_missing_trackId by blast
  have internal: "fst (webhook_try e req w) = Raised ex \<and> (\<forall>code msg. ex \<noteq> HTTPException code msg) \<longrightarrow>
      fst (oxapay_webhook e req w) = HttpError 500 (StrOf ex)"
    using webhook_internal_failure by blast
  show ?thesis
    using known missing internal by (intro conjI)
qed

text \<open>The theorem at the pending payment \<open>T1\<close>, for each reported status, and at a
  request without \<open>trackId\<close> and one whose body is not JSON.\<close>

theorem webhook_status_mapping_witness:
  "get_payment ''T1'' world1 = Some pay1 \<and> pay_status pay1 \<noteq> ''completed'' \<and>
   fst (oxapay_webhook env1 (req_of ''T1'' ''Paid'') world1) =
     Json200 [(''status'', ''success''), (''message'', ''Payment processed'')] \<and>
   stored_status ''T1'' (snd (oxapay_webhook env1 (req_of ''T1'' ''Paid'') world1)) =
     Some ''completed'' \<and>
   fst (oxapay_webhook env1 (req_of ''T1'' ''Expired'') world1) =
     Json200 [(''status'', ''expired'')] \<and>
   stored_status ''T1'' (snd (oxapay_webhook env1 (req_of ''T1'' ''Expired'') world1)) =
     Some ''expired'' \<and>
   fst (oxapay_webhook env1 (req_of ''T1'' ''Failed'') world1) =
     Json200 [(''status'', ''failed'')] \<and>
   stored_status ''T1'' (snd (oxapay_webhook env1 (req_of ''T1'' ''Failed'') world1)) =
     Some ''failed'' \<and>
   fst (oxapay_webhook env1 (req_of ''T1'' ''Waiting'') world1) =
     Json200 [(''status'', ''pending'')] \<and>
   payments (snd (oxapay_webhook env1 (req_of ''T1'' ''Waiting'') world1)) = payments world1 \<and>
   fst (oxapay_webhook env1 \<lparr>headers = [], body = JsonObject None (Some ''Paid'')\<rparr> world1) =
     HttpError 400 (Text ''Missing trackId'') \<and>
   fst (oxapay_webhook env1 \<lparr>headers = [], body = NotJson\<rparr> world1) =
     HttpError 500 (StrOf JSONDecodeError)"
proof -
  have h1: "get_payment ''T1'' world1 = Some pay1"
    by (simp add: get_payment_def example_defs)
  have h2: "pay_status pay1 \<noteq> ''completed''" by (simp add: example_defs)
  have h3: "''T1'' \<noteq> []" by simp
  have b: "body (req_of ''T1'' st) = JsonObject (Some ''T1'') (Some st)" for st
    by (simp add: req_of_def)
  have known: "get_payment ''T1'' world1 = Some pay1 \<and> pay_status pay1 \<noteq> ''completed'' \<and>
      ''T1'' \<noteq> [] \<and> body (req_of ''T1'' st) = JsonObject (Some ''T1'') (Some st)" for st
    using h1 h2 h3 b [of st] by (intro conjI)
  note paid = mp [OF conjunct1 [OF webhook_status_mapping
    [of "''T1''" world1 pay1 "req_of ''T1'' ''Paid''" "Some ''Paid''" env1]] known]
  note expired = mp [OF conjunct1 [OF webhook_status_mapping
    [of "''T1''" world1 pay1 "req_of ''T1'' ''Expired''" "Some ''Expired''" env1]] known]
  note failed = mp [OF conjunct1 [OF webhook_status_mapping
    [of "''T1''" world1 pay1 "req_of ''T1'' ''Failed''" "Some ''Failed''" env1]] known]
  note waiting = mp [OF conjunct1 [OF webhook_status_mapping
    [of "''T1''" world1 pay1 "req_of ''T1'' ''Waiting''" "Some ''Waiting''" env1]] known]
  note missing = conjunct1 [OF conjunct2 [OF webhook_status_mapping
    [of "''T1''" world1 pay1 "\<lparr>headers = [], body = JsonObject None (Some ''Paid'')\<rparr>"
        "Some ''Paid''" env1]]]
  note notjson = conjunct2 [OF conjunct2 [OF webhook_status_mapping
    [of "''T1''" world1 pay1 "\<lparr>headers = [], body = NotJson\<rparr>" "Some ''Paid''" env1
        JSONDecodeError]]]
  note k12 = mp [OF conjunct1 [OF paid] disjI1 [OF refl]]
  note k1 = conjunct2 [OF k12]
  note k2 = conjunct1 [OF k12]
  have c1: "fst (oxapay_webhook env1 (req_of ''T1'' ''Paid'') world1) =
     Json200 [(''status'', ''success''), (''message'', ''Payment processed'')]"
    by (subst k1)
      (simp add: deliver_defs load_json_def get_prices_def PACKAGE_NAMES_def
         update_payment_status_def log_msg_def example_defs)
  have c2: "stored_status ''T1'' (snd (oxapay_webhook env1 (req_of ''T1'' ''Paid'') world1)) =
     Some ''completed''"
    by (simp add: stored_status_def k2)
  note k3 = mp [OF conjunct1 [OF conjunct2 [OF expired]] refl]
  have c3: "fst (oxapay_webhook env1 (req_of ''T1'' ''Expired'') world1) =
     Json200 [(''status'', ''expired'')]"
    by (simp add: conjunct2 [OF k3])
  have c4: "stored_status ''T1'' (snd (oxapay_webhook env1 (req_of ''T1'' ''Expired'') world1)) =
     Some ''expired''"
    using conjunct1 [OF k3] by (simp add: stored_status_def)
  note k5 = mp [OF conjunct1 [OF conjunct2 [OF conjunct2 [OF failed]]] refl]
  have c5: "fst (oxapay_webhook env1 (req_of ''T1'' ''Failed'') world1) =
     Json200 [(''status'', ''failed'')]"
    by (simp add: conjunct2 [OF k5])
  have c6: "stored_status ''T1'' (snd (oxapay_webhook env1 (req_of ''T1'' ''Failed'') world1)) =
     Some ''failed''"
    using conjunct1 [OF k5] by (simp add: stored_status_def)
  have nw: "Some ''Waiting'' \<notin> set [Some ''Paid'', Some ''Confirming'', Some ''Expired'', Some ''Failed'']"
    by simp
  note k7 = mp [OF conjunct2 [OF conjunct2 [OF conjunct2 [OF waiting]]] nw]
  have c7: "fst (oxapay_webhook env1 (req_of ''T1'' ''Waiting'') world1) =
     Json200 [(''status'', ''pending'')]"
    by (simp add: k7)
  have c8: "payments (snd (oxapay_webhook env1 (req_of ''T1'' ''Waiting'') world1)) = payments world1"
    by (simp add: k7)
  have m: "body \<lparr>headers = [], body = JsonObject None (Some ''Paid'')\<rparr> = JsonObject None (Some ''Paid'')"
    by simp
  note k9 = mp [OF missing disjI1 [OF m]]
  have c9: "fst (oxapay_webhook env1 \<lparr>headers = [], body = JsonObject None (Some ''Paid'')\<rparr> world1) =
     HttpError 400 (Text ''Missing trackId'')"
    by (simp add: k9)
  have n: "fst (webhook_try env1 \<lparr>headers = [], body = NotJson\<rparr> world1) = Raised JSONDecodeError"
    "\<forall>code msg. JSONDecodeError \<noteq> HTTPException code msg"
    by (simp_all add: webhook_try_def)
  have c10: "fst (oxapay_webhook env1 \<lparr>headers = [], body = NotJson\<rparr> world1) =
     HttpError 500 (StrOf JSONDecodeError)"
    by (rule mp [OF notjson conjI [OF n(1) n(2)]])
  show ?thesis
    using h1 h2 c1 c2 c3 c4 c5 c6 c7 c8 c9 c10 by (intro conjI)
qed

section \<open>C4: a payment for a disabled package\<close>

text \<open>
  \<^bold>\<open>C4\<close> is not what the code does. The package \<open>100_videos\<close> is disabled in the
  links file (\<open>package_status\<close> is false for it), and \<open>show_packages\<close> does not offer it.
  \<open>initiate_payment\<close> for it, reached from a menu shown before the package was disabled,
  still returns normally, calls the gateway and stores a pending payment.
\<close>

theorem initiate_payment_disabled_package:
  "\<not> package_enabled ''100_videos'' world_disabled \<and>
   show_packages world_disabled =
     Returned [(''1000_videos'', PyInt 35), (''5000_videos'', PyInt 49),
               (''10000_videos_bot'', PyInt 75)] \<and>
   fst (initiate_payment env0 42 ''100_videos'' world_disabled) = Returned () \<and>
   gateway_calls (snd (initiate_payment env0 42 ''100_videos'' world_disabled)) =
     [(PyInt 15, ''100_videos'', 42)] \<and>
   payments (snd (initiate_payment env0 42 ''100_videos'' world_disabled)) = [pay1] \<and>
   screen (snd (initiate_payment env0 42 ''100_videos'' world_disabled)) =
     [(42, CreatingInvoice), (42, InvoiceCreated ''https://pay.oxapay.com/T1'' ''100 Videos'' (PyInt 15))] \<and>
   tasks (snd (initiate_payment env0 42 ''100_videos'' world_disabled)) =
     [(42, ''T1'', ''100_videos'', PyInt 15)]"
  by (simp add: package_enabled_def show_packages_def initiate_payment_def
        create_oxapay_invoice_def create_payment_def float_overflows_def add_payment_def insert_payment_def
        edit_message_text_def create_task_def handler_defs example_defs)

section \<open>C5: \<open>add_payment\<close> on an existing and on a fresh track id\<close>

lemma find_append_fresh:
  "t \<notin> pay_track_id ` set rows \<Longrightarrow> pay_track_id x = t \<Longrightarrow>
   find (\<lambda>r. pay_track_id r = t) (rows @ [x]) = Some x"
  by (induction rows) auto

lemma insert_payment_fresh:
  assumes "t \<notin> set (map pay_track_id rows)" and "int64 u" and "bind_real a = Inr stored"
  shows "insert_payment now t u pk a c rows =
           Inr (rows @
             [\<lparr>pay_track_id = t, pay_user_id = u, pay_package = pk, pay_amount = stored,
               pay_currency = c, pay_status = ''pending'', pay_created_at = now,
               pay_completed_at = None\<rparr>])"
  using assms by (simp add: insert_payment_def bind_integer_def)

lemma insert_payment_fails:
  assumes "t \<in> set (map pay_track_id rows) \<or> \<not> int64 u \<or> bind_real a = Inl ex"
  shows "\<exists>x. insert_payment now t u pk a c rows = Inl x"
  using assms by (auto simp add: insert_payment_def bind_integer_def split: sum.splits)

lemma add_payment_returns: "fst (add_payment now t u pk a c w) = Returned ()"
  by (simp add: add_payment_def split: sum.splits)

lemma add_payment_fails:
  assumes "insert_payment now t u pk a c (payments w) = Inl x"
  shows "snd (add_payment now t u pk a c w) = log_msg ERROR ''Error adding payment'' w"
  using assms by (simp add: add_payment_def)

text \<open>
  \<^bold>\<open>C5\<close>, as amended. \<open>add_payment\<close> always returns normally: every exception of the
  insert is caught inside the function and logged, and nothing reaches the caller. For
  an existing track id (the \<open>UNIQUE\<close> violation) the table is left as it was. It is also
  left as it was when the user id or an \<open>int\<close> amount does not fit a signed 64-bit
  integer (\<open>OverflowError\<close> when the parameter is bound). For a fresh track id with a
  user id and an amount that can be bound, one row is appended, with status \<open>pending\<close>
  and no \<open>completed_at\<close>, and it is the row \<open>get_payment\<close> then finds; its amount is the
  amount as the \<open>REAL\<close> column stores it, which is the amount itself for a float and for
  an \<open>int\<close> up to \<open>2^53\<close> in absolute value.
\<close>

theorem add_payment_outcome:
  "fst (add_payment now t u pk a c w) = Returned () \<and>
   (t \<in> set (map pay_track_id (payments w)) \<longrightarrow>
      snd (add_payment now t u pk a c w) = log_msg ERROR ''Error adding payment'' w \<and>
      payments (snd (add_payment now t u pk a c w)) = payments w) \<and>
   (\<not> int64 u \<or> bind_real a = Inl ex \<longrightarrow>
      snd (add_payment now t u pk a c w) = log_msg ERROR ''Error adding payment'' w \<and>
      payments (snd (add_payment now t u pk a c w)) = payments w) \<and>
   (t \<notin> set (map pay_track_id (payments w)) \<and> int64 u \<and> bind_real a = Inr stored \<longrightarrow>
      payments (snd (add_payment now t u pk a c w)) =
        payments w @
          [\<lparr>pay_track_id = t, pay_user_id = u, pay_package = pk, pay_amount = stored,
            pay_currency = c, pay_status = ''pending'', pay_created_at = now,
            pay_completed_at = None\<rparr>] \<and>
      get_payment t (snd (add_payment now t u pk a c w)) =
        Some \<lparr>pay_track_id = t, pay_user_id = u, pay_package = pk, pay_amount = stored,
              pay_currency = c, pay_status = ''pending'', pay_created_at = now,
              pay_completed_at = None\<rparr> \<and>
      ((case a of PyInt n \<Rightarrow> \<bar>n\<bar> \<le> 2 ^ 53 | PyFloat r \<Rightarrow> True) \<longrightarrow>
         stored = number_value a))"
proof -
  let ?r = "add_payment now t u pk a c w"
  have ret: "fst ?r = Returned ()" by (rule add_payment_returns)
  have dup: "t \<in> set (map pay_track_id (payments w)) \<longrightarrow>
      snd ?r = log_msg ERROR ''Error adding payment'' w \<and> payments (snd ?r) = payments w"
  proof
    assume "t \<in> set (map pay_track_id (payments w))"
    then obtain x where "insert_payment now t u pk a c (payments w) = Inl x"
      using insert_payment_fails [of t "payments w" u a ex now pk c] by blast
    then have "snd ?r = log_msg ERROR ''Error adding payment'' w" by (rule add_payment_fails)
    then show "snd ?r = log_msg ERROR ''Error adding payment'' w \<and> payments (snd ?r) = payments w"
      by simp
  qed
  have unbound: "\<not> int64 u \<or> bind_real a = Inl ex \<longrightarrow>
      snd ?r = log_msg ERROR ''Error adding payment'' w \<and> payments (snd ?r) = payments w"
  proof
    assume "\<not> int64 u \<or> bind_real a = Inl ex"
    then obtain x where "insert_payment now t u pk a c (payments w) = Inl x"
      using insert_payment_fails [of t "payments w" u a ex now pk c] by blast
    then have "snd ?r = log_msg ERROR ''Error adding payment'' w" by (rule add_payment_fails)
    then show "snd ?r = log_msg ERROR ''Error adding payment'' w \<and> payments (snd ?r) = payments w"
      by simp
  qed
  have fresh: "t \<notin> set (map pay_track_id (payments w)) \<and> int64 u \<and> bind_real a = Inr stored \<longrightarrow>
      payments (snd ?r) =
        payments w @
          [\<lparr>pay_track_id = t, pay_user_id = u, pay_package = pk, pay_amount = stored,
            pay_currency = c, pay_status = ''pending'', pay_created_at = now,
            pay_completed_at = None\<rparr>] \<and>
      get_payment t (snd ?r) =
        Some \<lparr>pay_track_id = t, pay_user_id = u, pay_package = pk, pay_amount = stored,
              pay_currency = c, pay_status = ''pending'', pay_created_at = now,
              pay_completed_at = None\<rparr> \<and>
      ((case a of PyInt n \<Rightarrow> \<bar>n\<bar> \<le> 2 ^ 53 | PyFloat r \<Rightarrow> True) \<longrightarrow>
         stored = number_value a)"
  proof (intro impI, elim conjE)
    assume f: "t \<notin> set (map pay_track_id (payments w))" and i: "int64 u"
      and b: "bind_real a = Inr stored"
    let ?row = "\<lparr>pay_track_id = t, pay_user_id = u, pay_package = pk, pay_amount = stored,
            pay_currency = c, pay_status = ''pending'', pay_created_at = now,
            pay_completed_at = None\<rparr>"
    have rows: "payments (snd ?r) = payments w @ [?row]"
      by (simp add: add_payment_def insert_payment_fresh [OF f i b])
    have "t \<notin> pay_track_id ` set (payments w)" using f by simp
    then have found: "get_payment t (snd ?r) = Some ?row"
      by (simp add: get_payment_def rows find_append_fresh)
    have exact: "(case a of PyInt n \<Rightarrow> \<bar>n\<bar> \<le> 2 ^ 53 | PyFloat r \<Rightarrow> True) \<longrightarrow>
                   stored = number_value a"
      using b by (cases a) (auto simp add: bind_real_def number_value_def to_double_def
                              split: if_splits)
    show "payments (snd ?r) = payments w @ [?row] \<and> get_payment t (snd ?r) = Some ?row \<and>
          ((case a of PyInt n \<Rightarrow> \<bar>n\<bar> \<le> 2 ^ 53 | PyFloat r \<Rightarrow> True) \<longrightarrow>
             stored = number_value a)"
      using rows found exact by (intro conjI)
  qed
  show ?thesis using ret dup unbound fresh by (intro conjI)
qed

text \<open>The theorem at the stored track id \<open>T1\<close>, at the fresh track id \<open>T2\<close>, and at \<open>T2\<close>
  with the user id \<open>2^63\<close>, which SQLite cannot bind.\<close>

theorem add_payment_outcome_witness:
  "''T1'' \<in> set (map pay_track_id (payments world1)) \<and>
   payments (snd (add_payment ''2024-01-01T10:05:00'' ''T1'' 7 ''1000_videos'' (PyInt 35) ''USD''
                    world1))
     = [pay1] \<and>
   ''T2'' \<notin> set (map pay_track_id (payments world1)) \<and> int64 7 \<and>
   bind_real (PyInt 35) = Inr 35 \<and>
   payments (snd (add_payment ''2024-01-01T10:05:00'' ''T2'' 7 ''1000_videos'' (PyInt 35) ''USD''
                    world1))
     = [pay1,
        \<lparr>pay_track_id = ''T2'', pay_user_id = 7, pay_package = ''1000_videos'', pay_amount = 35,
          pay_currency = ''USD'', pay_status = ''pending'',
          pay_created_at = ''2024-01-01T10:05:00'', pay_completed_at = None\<rparr>] \<and>
   \<not> int64 (2 ^ 63) \<and>
   payments (snd (add_payment ''2024-01-01T10:05:00'' ''T2'' (2 ^ 63) ''1000_videos'' (PyInt 35)
                    ''USD'' world1))
     = [pay1]"
proof -
  have h1: "''T1'' \<in> set (map pay_track_id (payments world1))"
    by (simp add: example_defs)
  have h2: "''T2'' \<notin> set (map pay_track_id (payments world1))"
    by (simp add: example_defs)
  have h3: "int64 7" by (simp add: int64_def)
  have h4: "bind_real (PyInt 35) = Inr 35"
    by (simp add: bind_real_def int64_def to_double_def)
  have h5: "\<not> int64 (2 ^ 63)" by (simp add: int64_def)
  have p: "payments world1 = [pay1]" by (simp add: example_defs)
  note t1 = add_payment_outcome
    [of "''2024-01-01T10:05:00''" "''T1''" 7 "''1000_videos''" "PyInt 35" "''USD''" world1]
  note t2 = add_payment_outcome
    [of "''2024-01-01T10:05:00''" "''T2''" 7 "''1000_videos''" "PyInt 35" "''USD''" world1 _ 35]
  note t3 = add_payment_outcome
    [of "''2024-01-01T10:05:00''" "''T2''" "2 ^ 63" "''1000_videos''" "PyInt 35" "''USD''" world1]
  have c1: "payments (snd (add_payment ''2024-01-01T10:05:00'' ''T1'' 7 ''1000_videos'' (PyInt 35)
                    ''USD'' world1)) = [pay1]"
    using t1 [THEN conjunct2, THEN conjunct1] h1 p by simp
  have c2: "payments (snd (add_payment ''2024-01-01T10:05:00'' ''T2'' 7 ''1000_videos'' (PyInt 35)
                    ''USD'' world1))
     = [pay1,
        \<lparr>pay_track_id = ''T2'', pay_user_id = 7, pay_package = ''1000_videos'', pay_amount = 35,
          pay_currency = ''USD'', pay_status = ''pending'',
          pay_created_at = ''2024-01-01T10:05:00'', pay_completed_at = None\<rparr>]"
    using t2 [THEN conjunct2, THEN conjunct2, THEN conjunct2] h2 h3 h4 p by simp
  have c3: "payments (snd (add_payment ''2024-01-01T10:05:00'' ''T2'' (2 ^ 63) ''1000_videos''
                    (PyInt 35) ''USD'' world1)) = [pay1]"
    using t3 [THEN conjunct2, THEN conjunct2, THEN conjunct1] h5 p by simp
  show ?thesis using h1 c1 h2 h3 h4 c2 h5 c3 by (intro conjI)
qed

text \<open>
  C5 as stated fails at the duplicate: the call for the stored track id \<open>T1\<close> returns
  like any other, and its caller \<open>initiate_payment\<close>, given \<open>T1\<close> again by the gateway,
  shows the invoice and schedules a second watcher.
\<close>

theorem add_payment_duplicate_counterexample:
  "''T1'' \<in> set (map pay_track_id (payments world1)) \<and>
   fst (add_payment ''2024-01-01T10:05:00'' ''T1'' 7 ''1000_videos'' (PyInt 35) ''USD'' world1)
     = Returned () \<and>
   fst (initiate_payment env1 7 ''100_videos'' world1) = Returned () \<and>
   screen (snd (initiate_payment env1 7 ''100_videos'' world1)) =
     [(7, CreatingInvoice),
      (7, InvoiceCreated ''https://pay.oxapay.com/T1'' ''100 Videos'' (PyInt 15))] \<and>
   tasks (snd (initiate_payment env1 7 ''100_videos'' world1)) =
     [(7, ''T1'', ''100_videos'', PyInt 15)]"
  by (simp add: initiate_payment_def create_oxapay_invoice_def create_payment_def
        float_overflows_def add_payment_def insert_payment_def edit_message_text_def
        create_task_def handler_defs example_defs)

section \<open>C6: the expiry watcher\<close>

text \<open>
  \<^bold>\<open>C6\<close>, as amended. A watcher is started by \<open>initiate_payment\<close> only for a package
  that has an entry in \<open>PACKAGE_NAMES\<close> (lemma \<open>initiate_payment_tasks\<close>). When it fires
  on a payment that is still \<open>pending\<close> and Telegram accepts the expiry notice, the notice
  is sent to the user and the status becomes \<open>expired\<close>; when the stored status is not
  \<open>pending\<close> the world is left exactly as it was; in no case is a purchase written.
  (When the send raises, the status is not written: see C10.)
\<close>

theorem expiry_watcher_outcome:
  assumes "get_payment t w = Some p" and "map_of PACKAGE_NAMES pk = Some name"
  shows "purchases (check_payment_expiry e u t pk a w) = purchases w \<and>
         (pay_status p = ''pending'' \<and> env_send_ok e \<longrightarrow>
            get_payment t (check_payment_expiry e u t pk a w) =
              Some (p\<lparr>pay_status := ''expired'', pay_completed_at := Some (env_now e)\<rparr>) \<and>
            outbox (check_payment_expiry e u t pk a w) = outbox w @ [(u, PaymentExpired name a)]) \<and>
         (pay_status p \<noteq> ''pending'' \<longrightarrow> check_payment_expiry e u t pk a w = w)"
  using assms
  by (simp add: check_payment_expiry_def expiry_pending_def expiry_notify_sent
        get_payment_update)

text \<open>The theorem at the pending payment \<open>T1\<close>, and at the completed one.\<close>

theorem expiry_watcher_outcome_witness:
  "get_payment ''T1'' world1 = Some pay1 \<and>
   map_of PACKAGE_NAMES ''100_videos'' = Some ''100 Videos'' \<and>
   pay_status pay1 = ''pending'' \<and> env_send_ok env1 \<and>
   stored_status ''T1'' (check_payment_expiry env1 42 ''T1'' ''100_videos'' (PyInt 15) world1)
     = Some ''expired'' \<and>
   outbox (check_payment_expiry env1 42 ''T1'' ''100_videos'' (PyInt 15) world1)
     = [(42, PaymentExpired ''100 Videos'' (PyInt 15))] \<and>
   purchases (check_payment_expiry env1 42 ''T1'' ''100_videos'' (PyInt 15) world1) = [] \<and>
   get_payment ''T1'' world_completed = Some pay1_completed \<and>
   pay_status pay1_completed \<noteq> ''pending'' \<and>
   check_payment_expiry env1 42 ''T1'' ''100_videos'' (PyInt 15) world_completed = world_completed"
proof -
  have h1: "get_payment ''T1'' world1 = Some pay1"
    by (simp add: get_payment_def example_defs)
  have h2: "map_of PACKAGE_NAMES ''100_videos'' = Some ''100 Videos''"
    by (simp add: PACKAGE_NAMES_def)
  have h3: "get_payment ''T1'' world_completed = Some pay1_completed"
    by (simp add: get_payment_def example_defs)
  have s: "pay_status pay1 = ''pending''" "env_send_ok env1"
    "pay_status pay1_completed \<noteq> ''pending''" "outbox world1 = []" "purchases world1 = []"
    by (simp_all add: example_defs)
  show ?thesis
    using h1 h2 h3 s
      expiry_watcher_outcome [OF h1 h2, of env1 42 "PyInt 15"]
      expiry_watcher_outcome [OF h3 h2, of env1 42 "PyInt 15"]
    by (simp add: stored_status_def)
qed

text \<open>
  C6 as stated fails when Telegram refuses the notice: the watcher fires on the pending
  payment \<open>T1\<close>, nothing is sent and the status is still \<open>pending\<close>.
\<close>

theorem expiry_watcher_counterexample:
  "stored_status ''T1'' world1 = Some ''pending'' \<and>
   stored_status ''T1'' (check_payment_expiry env_fail 42 ''T1'' ''100_videos'' (PyInt 15) world1)
     = Some ''pending'' \<and>
   outbox (check_payment_expiry env_fail 42 ''T1'' ''100_videos'' (PyInt 15) world1) = []"
  by (simp add: handler_defs example_defs)

section \<open>C7: a Paid webhook and the expiry watcher on the same track id\<close>

text \<open>
  \<^bold>\<open>C7\<close>, as amended. The code holds no lock and no queue per track id. What holds
  is the order in which the webhook was handled first: once a webhook reporting Paid (or
  Confirming) for a payment that is not yet completed has been handled, the stored status
  is \<open>completed\<close>, at most one purchase and at most one message have been added, and a
  watcher of that track id that reads the status afterwards changes nothing and sends
  nothing.
\<close>

theorem paid_webhook_then_watcher:
  assumes "get_payment t w = Some p" and "pay_status p \<noteq> ''completed''" and "t \<noteq> []"
    and "body req = JsonObject (Some t) st"
    and "st = Some ''Paid'' \<or> st = Some ''Confirming''"
  shows "stored_status t (snd (oxapay_webhook e req w)) = Some ''completed'' \<and>
         length (purchases (snd (oxapay_webhook e req w))) \<le> length (purchases w) + 1 \<and>
         length (outbox (snd (oxapay_webhook e req w))) \<le> length (outbox w) + 1 \<and>
         \<not> expiry_pending t (snd (oxapay_webhook e req w)) \<and>
         check_payment_expiry e' u t pk a (snd (oxapay_webhook e req w)) =
           snd (oxapay_webhook e req w)"
  using webhook_paid_frame(1) [OF assms, of e] webhook_paid_at_most_one [OF assms, of e]
  by (simp add: stored_status_def check_payment_expiry_def expiry_pending_def)

text \<open>The theorem at the pending payment \<open>T1\<close>.\<close>

theorem paid_webhook_then_watcher_witness:
  "get_payment ''T1'' world1 = Some pay1 \<and> pay_status pay1 \<noteq> ''completed'' \<and>
   ''T1'' \<noteq> [] \<and> body (req_of ''T1'' ''Paid'') = JsonObject (Some ''T1'') (Some ''Paid'') \<and>
   stored_status ''T1''
     (check_payment_expiry env2 42 ''T1'' ''100_videos'' (PyInt 15)
        (snd (oxapay_webhook env1 (req_of ''T1'' ''Paid'') world1))) = Some ''completed''"
proof -
  have h1: "get_payment ''T1'' world1 = Some pay1"
    by (simp add: get_payment_def example_defs)
  have h2: "pay_status pay1 \<noteq> ''completed''" by (simp add: example_defs)
  have h3: "''T1'' \<noteq> []" by simp
  have h4: "body (req_of ''T1'' ''Paid'') = JsonObject (Some ''T1'') (Some ''Paid'')"
    by (simp add: req_of_def)
  have h5: "Some ''Paid'' = Some ''Paid'' \<or> Some ''Paid'' = Some ''Confirming''" by simp
  show ?thesis
    using h1 h2 h4 paid_webhook_then_watcher [OF h1 h2 h3 h4 h5, of env1 env2 42 "''100_videos''" "PyInt 15"]
    by simp
qed

text \<open>
  C7 as stated fails. The watcher reads the status of \<open>T1\<close> (\<open>pending\<close>) and is suspended
  in \<open>await send_message\<close>; the Paid webhook is handled meanwhile; the watcher resumes and
  writes \<open>expired\<close>. The final status is \<open>expired\<close>, and the user has received both the
  access link and the expiry notice.
\<close>

theorem paid_webhook_watcher_race_counterexample:
  "expiry_pending ''T1'' world1 \<and>
   stored_status ''T1''
     (expiry_notify env2 42 ''T1'' ''100_videos'' (PyInt 15)
        (snd (oxapay_webhook env1 (req_of ''T1'' ''Paid'') world1))) = Some ''expired'' \<and>
   outbox
     (expiry_notify env2 42 ''T1'' ''100_videos'' (PyInt 15)
        (snd (oxapay_webhook env1 (req_of ''T1'' ''Paid'') world1))) =
     [(42, PaymentConfirmed ''100 Videos'' ''https://t.me/+abc''),
      (42, PaymentExpired ''100 Videos'' (PyInt 15))] \<and>
   length (purchases
     (expiry_notify env2 42 ''T1'' ''100_videos'' (PyInt 15)
        (snd (oxapay_webhook env1 (req_of ''T1'' ''Paid'') world1)))) = 1"
  by (simp add: handler_defs example_defs)

section \<open>C8: the webhook and the webhook secret\<close>

text \<open>
  \<^bold>\<open>C8\<close> is not what the code does. \<open>verify_webhook_signature\<close> rejects an absent
  secret and a wrong one, but \<open>oxapay_webhook\<close> never calls it and never reads the
  request's headers: its result is the same whatever the headers are. A request with no
  header at all that reports \<open>Paid\<close> for the pending payment \<open>T1\<close> is processed: the
  payment is completed and access is delivered.
\<close>

theorem webhook_never_checks_secret:
  "oxapay_webhook e (req\<lparr>headers := h\<rparr>) w = oxapay_webhook e req w \<and>
   verify_webhook_signature secret [] = False \<and>
   verify_webhook_signature ''s3cret'' ''forged'' = False \<and>
   headers (req_of ''T1'' ''Paid'') = [] \<and>
   fst (oxapay_webhook env1 (req_of ''T1'' ''Paid'') world1) =
     Json200 [(''status'', ''success''), (''message'', ''Payment processed'')] \<and>
   stored_status ''T1'' (snd (oxapay_webhook env1 (req_of ''T1'' ''Paid'') world1)) =
     Some ''completed'' \<and>
   outbox (snd (oxapay_webhook env1 (req_of ''T1'' ''Paid'') world1)) =
     [(42, PaymentConfirmed ''100 Videos'' ''https://t.me/+abc'')]"
proof -
  have a: "oxapay_webhook e (req\<lparr>headers := h\<rparr>) w = oxapay_webhook e req w"
    by (simp add: oxapay_webhook_def webhook_try_def)
  have b: "verify_webhook_signature secret [] = False"
    "verify_webhook_signature ''s3cret'' ''forged'' = False"
    by (simp_all add: verify_webhook_signature_def)
  have c: "headers (req_of ''T1'' ''Paid'') = []" by (simp add: req_of_def)
  have d: "fst (oxapay_webhook env1 (req_of ''T1'' ''Paid'') world1) =
     Json200 [(''status'', ''success''), (''message'', ''Payment processed'')]"
    "stored_status ''T1'' (snd (oxapay_webhook env1 (req_of ''T1'' ''Paid'') world1)) =
     Some ''completed''"
    "outbox (snd (oxapay_webhook env1 (req_of ''T1'' ''Paid'') world1)) =
     [(42, PaymentConfirmed ''100 Videos'' ''https://t.me/+abc'')]"
    by (simp_all add: handler_defs example_defs)
  show ?thesis using a b c d by (intro conjI)
qed

section \<open>C9: the amount of the purchase record\<close>

lemma deliver_access_ignores_payments:
  "purchases (snd (deliver_access e u pk (w\<lparr>payments := ps\<rparr>))) =
   purchases (snd (deliver_access e u pk w))"
  by (simp add: deliver_defs add_purchase_def load_json_def get_prices_def log_msg_def
        split: option.splits sum.splits)

text \<open>
  \<^bold>\<open>C9\<close>, as amended. \<open>deliver_access\<close> takes the user and the package only, and what
  it writes does not depend on the payments table. When a webhook reporting Paid (or
  Confirming) for a payment that is not yet completed leads to a delivered message, and
  SQLite can bind the user id and the price the prices file gives for the package at that
  moment, the purchase record appended holds that price as the \<open>REAL\<close> column stores it,
  not the amount stored with the payment. For a price that is a float, or an \<open>int\<close> up
  to \<open>2^53\<close> in absolute value, the column stores the price itself; so when that price
  differs from the amount stored with the payment (the price at invoice creation, which
  is what the user was asked to pay), the recorded amount differs from it. When the user
  id or the price cannot be bound, no purchase is recorded at all.
\<close>

theorem purchase_amount_is_catalog_price:
  assumes "get_payment t w = Some p" and "pay_status p \<noteq> ''completed''" and "t \<noteq> []"
    and "body req = JsonObject (Some t) st"
    and "st = Some ''Paid'' \<or> st = Some ''Confirming''"
    and "lk_packages (load_json w) = Some m" and "map_of m (pay_package p) = Some l"
    and "l \<noteq> []" and "map_of PACKAGE_NAMES (pay_package p) = Some name"
    and "env_send_ok e" and "map_of (get_prices w) (pay_package p) = Some a"
  shows "(int64 (pay_user_id p) \<and> bind_real a = Inr stored \<longrightarrow>
            purchases (snd (oxapay_webhook e req w)) =
              purchases w @
                [\<lparr>pur_user_id = pay_user_id p, pur_package = pay_package p, pur_amount = stored,
                  pur_purchased_at = env_now e, pur_invite_link = l\<rparr>] \<and>
            ((case a of PyInt n \<Rightarrow> \<bar>n\<bar> \<le> 2 ^ 53 | PyFloat r \<Rightarrow> True) \<longrightarrow>
               pur_amount (last (purchases (snd (oxapay_webhook e req w)))) = number_value a \<and>
               (number_value a \<noteq> pay_amount p \<longrightarrow>
                  pur_amount (last (purchases (snd (oxapay_webhook e req w)))) \<noteq> pay_amount p))) \<and>
         (\<not> int64 (pay_user_id p) \<or> bind_real a = Inl ex \<longrightarrow>
            purchases (snd (oxapay_webhook e req w)) = purchases w) \<and>
         purchases (snd (deliver_access e u pk (w\<lparr>payments := ps\<rparr>))) =
           purchases (snd (deliver_access e u pk w))"
proof -
  let ?ps = "purchases (snd (oxapay_webhook e req w))"
  have rec: "int64 (pay_user_id p) \<and> bind_real a = Inr stored \<longrightarrow>
            ?ps =
              purchases w @
                [\<lparr>pur_user_id = pay_user_id p, pur_package = pay_package p, pur_amount = stored,
                  pur_purchased_at = env_now e, pur_invite_link = l\<rparr>] \<and>
            ((case a of PyInt n \<Rightarrow> \<bar>n\<bar> \<le> 2 ^ 53 | PyFloat r \<Rightarrow> True) \<longrightarrow>
               pur_amount (last ?ps) = number_value a \<and>
               (number_value a \<noteq> pay_amount p \<longrightarrow> pur_amount (last ?ps) \<noteq> pay_amount p))"
  proof (intro impI, elim conjE)
    assume i: "int64 (pay_user_id p)" and b: "bind_real a = Inr stored"
    have rows: "?ps =
              purchases w @
                [\<lparr>pur_user_id = pay_user_id p, pur_package = pay_package p, pur_amount = stored,
                  pur_purchased_at = env_now e, pur_invite_link = l\<rparr>]"
      by (rule webhook_paid_delivered(1) [OF assms i b])
    have lst: "pur_amount (last ?ps) = stored" by (simp add: rows)
    have exact: "(case a of PyInt n \<Rightarrow> \<bar>n\<bar> \<le> 2 ^ 53 | PyFloat r \<Rightarrow> True) \<longrightarrow>
                   stored = number_value a"
      using b by (cases a) (auto simp add: bind_real_def number_value_def to_double_def
                              split: if_splits)
    have price: "(case a of PyInt n \<Rightarrow> \<bar>n\<bar> \<le> 2 ^ 53 | PyFloat r \<Rightarrow> True) \<longrightarrow>
               pur_amount (last ?ps) = number_value a \<and>
               (number_value a \<noteq> pay_amount p \<longrightarrow> pur_amount (last ?ps) \<noteq> pay_amount p)"
      using exact lst by simp
    show "?ps =
              purchases w @
                [\<lparr>pur_user_id = pay_user_id p, pur_package = pay_package p, pur_amount = stored,
                  pur_purchased_at = env_now e, pur_invite_link = l\<rparr>] \<and>
            ((case a of PyInt n \<Rightarrow> \<bar>n\<bar> \<le> 2 ^ 53 | PyFloat r \<Rightarrow> True) \<longrightarrow>
               pur_amount (last ?ps) = number_value a \<and>
               (number_value a \<noteq> pay_amount p \<longrightarrow> pur_amount (last ?ps) \<noteq> pay_amount p))"
      using rows price by (intro conjI)
  qed
  have unrec: "\<not> int64 (pay_user_id p) \<or> bind_real a = Inl ex \<longrightarrow> ?ps = purchases w"
  proof
    assume x: "\<not> int64 (pay_user_id p) \<or> bind_real a = Inl ex"
    show "?ps = purchases w" by (rule webhook_paid_unrecorded(1) [OF assms x])
  qed
  have indep: "purchases (snd (deliver_access e u pk (w\<lparr>payments := ps\<rparr>))) =
           purchases (snd (deliver_access e u pk w))"
    by (rule deliver_access_ignores_payments)
  show ?thesis using rec unrec indep by (intro conjI)
qed

text \<open>
  The theorem on a price change: user 42 is invoiced 15 for \<open>100_videos\<close>, the price is
  then set to 20, and the Paid webhook records a purchase of 20.
\<close>

theorem purchase_amount_is_catalog_price_witness:
  "payments (snd (initiate_payment env0 42 ''100_videos'' world0)) = [pay1] \<and>
   get_payment ''T1'' world_repriced = Some pay1 \<and> pay_amount pay1 = 15 \<and>
   pay_status pay1 \<noteq> ''completed'' \<and> ''T1'' \<noteq> [] \<and>
   body (req_of ''T1'' ''Paid'') = JsonObject (Some ''T1'') (Some ''Paid'') \<and>
   lk_packages (load_json world_repriced) = Some [(''100_videos'', ''https://t.me/+abc'')] \<and>
   env_send_ok env1 \<and>
   map_of (get_prices world_repriced) (pay_package pay1) = Some (PyInt 20) \<and>
   int64 (pay_user_id pay1) \<and> bind_real (PyInt 20) = Inr 20 \<and>
   purchases (snd (oxapay_webhook env1 (req_of ''T1'' ''Paid'') world_repriced)) =
     [\<lparr>pur_user_id = 42, pur_package = ''100_videos'', pur_amount = 20,
       pur_purchased_at = ''2024-01-01T10:30:00'', pur_invite_link = ''https://t.me/+abc''\<rparr>] \<and>
   pur_amount (last (purchases (snd (oxapay_webhook env1 (req_of ''T1'' ''Paid'') world_repriced))))
     \<noteq> pay_amount pay1"
proof -
  have i: "payments (snd (initiate_payment env0 42 ''100_videos'' world0)) = [pay1]"
    by (simp add: initiate_payment_def create_oxapay_invoice_def create_payment_def
          float_overflows_def add_payment_def insert_payment_def edit_message_text_def
          create_task_def handler_defs example_defs)
  have h1: "get_payment ''T1'' world_repriced = Some pay1"
    by (simp add: get_payment_def example_defs)
  have h2: "pay_status pay1 \<noteq> ''completed''" by (simp add: example_defs)
  have h3: "''T1'' \<noteq> []" by simp
  have h4: "body (req_of ''T1'' ''Paid'') = JsonObject (Some ''T1'') (Some ''Paid'')"
    by (simp add: req_of_def)
  have h5: "Some ''Paid'' = Some ''Paid'' \<or> Some ''Paid'' = Some ''Confirming''" by simp
  have h6: "lk_packages (load_json world_repriced) = Some [(''100_videos'', ''https://t.me/+abc'')]"
    by (simp add: load_json_def example_defs)
  have h7: "map_of [(''100_videos'', ''https://t.me/+abc'')] (pay_package pay1) = Some ''https://t.me/+abc''"
    by (simp add: example_defs)
  have h8: "''https://t.me/+abc'' \<noteq> []" by simp
  have h9: "map_of PACKAGE_NAMES (pay_package pay1) = Some ''100 Videos''"
    by (simp add: PACKAGE_NAMES_def example_defs)
  have h10: "env_send_ok env1" by (simp add: example_defs)
  have h11: "map_of (get_prices world_repriced) (pay_package pay1) = Some (PyInt 20)"
    by (simp add: get_prices_def load_json_def example_defs)
  have h12: "int64 (pay_user_id pay1)" by (simp add: int64_def example_defs)
  have h13: "bind_real (PyInt 20) = Inr 20"
    by (simp add: bind_real_def int64_def to_double_def)
  have small: "case PyInt 20 of PyInt n \<Rightarrow> \<bar>n\<bar> \<le> 2 ^ 53 | PyFloat r \<Rightarrow> True" by simp
  have differs: "number_value (PyInt 20) \<noteq> pay_amount pay1"
    by (simp add: number_value_def example_defs)
  have v: "pay_user_id pay1 = 42" "pay_package pay1 = ''100_videos''" "pay_amount pay1 = 15"
    "env_now env1 = ''2024-01-01T10:30:00''" "purchases world_repriced = []"
    by (simp_all add: example_defs)
  note th = purchase_amount_is_catalog_price [OF h1 h2 h3 h4 h5 h6 h7 h8 h9 h10 h11,
      THEN conjunct1, rule_format, OF conjI [OF h12 h13]]
  have c: "purchases (snd (oxapay_webhook env1 (req_of ''T1'' ''Paid'') world_repriced)) =
     [\<lparr>pur_user_id = 42, pur_package = ''100_videos'', pur_amount = 20,
       pur_purchased_at = ''2024-01-01T10:30:00'', pur_invite_link = ''https://t.me/+abc''\<rparr>]"
    using th [THEN conjunct1] v by simp
  have d: "pur_amount (last (purchases (snd (oxapay_webhook env1 (req_of ''T1'' ''Paid'') world_repriced))))
     \<noteq> pay_amount pay1"
    using th [THEN conjunct2, rule_format, OF small, THEN conjunct2, rule_format, OF differs] .
  show ?thesis using i h1 v(3) h2 h3 h4 h6 h10 h11 h12 h13 c d by (intro conjI)
qed

text \<open>
  C9 as stated fails at the edge of the \<open>REAL\<close> column. User 42 is invoiced \<open>2^53\<close> for
  \<open>100_videos\<close> and the price is then raised to \<open>2^53 + 1\<close>: the Paid webhook records a
  purchase of \<open>2^53\<close>, the amount the user paid, not the catalog price at delivery. With
  the price \<open>2^63\<close> the message is sent and no purchase is recorded. A fractional price
  (19.5) is recorded as it is.
\<close>

theorem purchase_amount_rounding_counterexample:
  "payments (snd (initiate_payment env0 42 ''100_videos'' world_big)) = [pay_big] \<and>
   get_payment ''T1'' world_big_repriced = Some pay_big \<and>
   pay_amount pay_big = 9007199254740992 \<and>
   map_of (get_prices world_big_repriced) ''100_videos'' = Some (PyInt 9007199254740993) \<and>
   purchases (snd (oxapay_webhook env1 (req_of ''T1'' ''Paid'') world_big_repriced)) =
     [\<lparr>pur_user_id = 42, pur_package = ''100_videos'', pur_amount = 9007199254740992,
       pur_purchased_at = ''2024-01-01T10:30:00'', pur_invite_link = ''https://t.me/+abc''\<rparr>] \<and>
   map_of (get_prices world_huge) ''100_videos'' = Some (PyInt 9223372036854775808) \<and>
   outbox (snd (oxapay_webhook env1 (req_of ''T1'' ''Paid'') world_huge)) =
     [(42, PaymentConfirmed ''100 Videos'' ''https://t.me/+abc'')] \<and>
   purchases (snd (oxapay_webhook env1 (req_of ''T1'' ''Paid'') world_huge)) = [] \<and>
   purchases (snd (oxapay_webhook env1 (req_of ''T1'' ''Paid'') world_fraction)) =
     [\<lparr>pur_user_id = 42, pur_package = ''100_videos'', pur_amount = 39 / 2,
       pur_purchased_at = ''2024-01-01T10:30:00'', pur_invite_link = ''https://t.me/+abc''\<rparr>]"
  by (simp add: initiate_payment_def create_oxapay_invoice_def create_payment_def
        float_overflows_def add_payment_def insert_payment_def edit_message_text_def
        create_task_def handler_defs example_defs)

section \<open>C10: the watcher when the expiry notice cannot be sent\<close>

text \<open>
  \<^bold>\<open>C10\<close>, as amended. When the watcher fires on a pending payment and
  \<open>send_message\<close> raises, the \<open>try\<close> block ends at the send (the exception is
  \<open>TelegramError\<close> and the world is as before the send), the status write is skipped,
  and the watcher ends having only logged the failure: the payment is still \<open>pending\<close>,
  and nothing is scheduled again. The payment then stays \<open>pending\<close> over every schedule
  of the event loop, whatever handlers are suspended, that holds no webhook reporting
  Paid, Confirming, Expired or Failed for it and no resumption of another watcher of its
  track id. (It does not stay pending forever: such a webhook still moves it.)
\<close>

theorem expiry_send_failure_leaves_pending:
  assumes "get_payment t w = Some p" and "pay_status p = ''pending''" and "\<not> env_send_ok e"
  shows "check_payment_expiry e u t pk a w =
           log_msg ERROR ''Failed to send expiry notification'' w \<and>
         (map_of PACKAGE_NAMES pk = Some name \<longrightarrow>
            expiry_try e u t pk a w = (Raised TelegramError, w)) \<and>
         get_payment t (check_payment_expiry e u t pk a w) = Some p \<and>
         tasks (check_payment_expiry e u t pk a w) = tasks w \<and>
         ((\<forall>ev \<in> set evs. quiet t ev) \<longrightarrow>
            get_payment t
              (sys_world (run evs (s\<lparr>sys_world := check_payment_expiry e u t pk a w\<rparr>))) = Some p)"
proof -
  have eq: "check_payment_expiry e u t pk a w =
              log_msg ERROR ''Failed to send expiry notification'' w"
    using assms by (simp add: check_payment_expiry_def expiry_pending_def expiry_notify_send_fails)
  have raised: "map_of PACKAGE_NAMES pk = Some name \<longrightarrow>
               expiry_try e u t pk a w = (Raised TelegramError, w)"
    using assms(3) by (simp add: expiry_try_def send_message_def)
  have keep: "get_payment t (check_payment_expiry e u t pk a w) = Some p"
    using eq assms(1) by simp
  have tk: "tasks (check_payment_expiry e u t pk a w) = tasks w"
    using eq by simp
  have later: "(\<forall>ev \<in> set evs. quiet t ev) \<longrightarrow>
                 get_payment t
                   (sys_world (run evs (s\<lparr>sys_world := check_payment_expiry e u t pk a w\<rparr>))) = Some p"
    using run_quiet [of evs t "s\<lparr>sys_world := check_payment_expiry e u t pk a w\<rparr>"] keep by simp
  show ?thesis using eq raised keep tk later by (intro conjI)
qed

text \<open>The theorem at the pending payment \<open>T1\<close>, followed by a webhook that reports
  \<open>Waiting\<close> for it and by the watcher of another track id, which wakes and finds nothing.\<close>

theorem expiry_send_failure_leaves_pending_witness:
  "get_payment ''T1'' world1 = Some pay1 \<and> pay_status pay1 = ''pending'' \<and>
   \<not> env_send_ok env_fail \<and>
   map_of PACKAGE_NAMES ''100_videos'' = Some ''100 Videos'' \<and>
   expiry_try env_fail 42 ''T1'' ''100_videos'' (PyInt 15) world1 = (Raised TelegramError, world1) \<and>
   get_payment ''T1''
     (sys_world
        (run [WebhookArrives env2 (req_of ''T1'' ''Waiting''),
              WatcherWakes 43 ''T2'' ''1000_videos'' (PyInt 35),
              ExpirySendEnds env2 43 ''T2'' ''1000 Videos'' (PyInt 35)]
           ((idle world1)\<lparr>sys_world :=
              check_payment_expiry env_fail 42 ''T1'' ''100_videos'' (PyInt 15) world1\<rparr>)))
     = Some pay1"
proof -
  have h1: "get_payment ''T1'' world1 = Some pay1"
    by (simp add: get_payment_def example_defs)
  have h2: "pay_status pay1 = ''pending''" by (simp add: example_defs)
  have h3: "\<not> env_send_ok env_fail" by (simp add: example_defs)
  have h4: "map_of PACKAGE_NAMES ''100_videos'' = Some ''100 Videos''"
    by (simp add: PACKAGE_NAMES_def)
  have h5: "\<forall>ev \<in> set [WebhookArrives env2 (req_of ''T1'' ''Waiting''),
                        WatcherWakes 43 ''T2'' ''1000_videos'' (PyInt 35),
                        ExpirySendEnds env2 43 ''T2'' ''1000 Videos'' (PyInt 35)]. quiet ''T1'' ev"
    by (simp add: req_of_def)
  note th = expiry_send_failure_leaves_pending [OF h1 h2 h3, of 42 "''100_videos''" "PyInt 15"
        "''100 Videos''"
        "[WebhookArrives env2 (req_of ''T1'' ''Waiting''),
          WatcherWakes 43 ''T2'' ''1000_videos'' (PyInt 35),
          ExpirySendEnds env2 43 ''T2'' ''1000 Videos'' (PyInt 35)]" "idle world1"]
  have a: "expiry_try env_fail 42 ''T1'' ''100_videos'' (PyInt 15) world1 = (Raised TelegramError, world1)"
    using th h4 by blast
  have b: "get_payment ''T1''
     (sys_world
        (run [WebhookArrives env2 (req_of ''T1'' ''Waiting''),
              WatcherWakes 43 ''T2'' ''1000_videos'' (PyInt 35),
              ExpirySendEnds env2 43 ''T2'' ''1000 Videos'' (PyInt 35)]
           ((idle world1)\<lparr>sys_world :=
              check_payment_expiry env_fail 42 ''T1'' ''100_videos'' (PyInt 15) world1\<rparr>)))
     = Some pay1"
    using th h5 by blast
  show ?thesis
    using h1 h2 h3 h4 a b by (intro conjI)
qed

text \<open>
  C10 as stated fails in "remains pending forever (it is never marked expired)": after
  the watcher has failed to send, a webhook that reports \<open>Expired\<close> for \<open>T1\<close> marks
  the payment expired.
\<close>

theorem expiry_send_failure_counterexample:
  "stored_status ''T1'' (check_payment_expiry env_fail 42 ''T1'' ''100_videos'' (PyInt 15) world1)
     = Some ''pending'' \<and>
   stored_status ''T1''
     (sys_world
        (run [WebhookArrives env2 (req_of ''T1'' ''Expired'')]
           ((idle world1)\<lparr>sys_world :=
              check_payment_expiry env_fail 42 ''T1'' ''100_videos'' (PyInt 15) world1\<rparr>)))
     = Some ''expired''"
  by (simp add: handler_defs example_defs)

end
